theory Spec2Isabelle
  imports Complex_Main
begin

section \<open>Values, grids and errors\<close>

text \<open>
  Every array cell of the detection code is a floating-point number. A cell is modelled
  as a finite real, one of the two infinities, or the not-a-number value that marks an
  invalid cell. Arithmetic on finite cells is exact real arithmetic (rounding, overflow
  and the sign of zero are outside the model, but for the cumulative sum of
  \<open>compute_background_rad\<close>, whose rounding is a parameter); arithmetic and comparisons
  that involve an infinity or NaN follow IEEE 754: NaN is contagious, every comparison
  with NaN is false, a non-zero finite number divided by zero is an infinity and 0/0 is
  NaN.
\<close>

datatype fl = Fin real | PInf | MInf | NaN

fun isnan :: "fl \<Rightarrow> bool" where
  "isnan NaN = True"
| "isnan _ = False"

fun isfinite :: "fl \<Rightarrow> bool" where
  "isfinite (Fin _) = True"
| "isfinite _ = False"

fun fl_neg :: "fl \<Rightarrow> fl" where
  "fl_neg (Fin x) = Fin (- x)"
| "fl_neg PInf = MInf"
| "fl_neg MInf = PInf"
| "fl_neg NaN = NaN"

fun fl_add :: "fl \<Rightarrow> fl \<Rightarrow> fl" where
  "fl_add (Fin x) (Fin y) = Fin (x + y)"
| "fl_add NaN _ = NaN"
| "fl_add _ NaN = NaN"
| "fl_add PInf MInf = NaN"
| "fl_add MInf PInf = NaN"
| "fl_add PInf _ = PInf"
| "fl_add _ PInf = PInf"
| "fl_add MInf _ = MInf"
| "fl_add _ MInf = MInf"

definition fl_sub :: "fl \<Rightarrow> fl \<Rightarrow> fl" where
  "fl_sub a b = fl_add a (fl_neg b)"

text \<open>The infinity with the sign of a real, or NaN for zero (the product \<open>inf * 0\<close>).\<close>

definition inf_signed :: "real \<Rightarrow> fl" where
  "inf_signed s = (if s = 0 then NaN else if 0 < s then PInf else MInf)"

fun fl_mul :: "fl \<Rightarrow> fl \<Rightarrow> fl" where
  "fl_mul (Fin x) (Fin y) = Fin (x * y)"
| "fl_mul NaN _ = NaN"
| "fl_mul _ NaN = NaN"
| "fl_mul PInf (Fin y) = inf_signed y"
| "fl_mul MInf (Fin y) = inf_signed (- y)"
| "fl_mul (Fin x) PInf = inf_signed x"
| "fl_mul (Fin x) MInf = inf_signed (- x)"
| "fl_mul PInf PInf = PInf"
| "fl_mul MInf MInf = PInf"
| "fl_mul PInf MInf = MInf"
| "fl_mul MInf PInf = MInf"

fun fl_div :: "fl \<Rightarrow> fl \<Rightarrow> fl" where
  "fl_div (Fin x) (Fin y) = (if y = 0 then inf_signed x else Fin (x / y))"
| "fl_div NaN _ = NaN"
| "fl_div _ NaN = NaN"
| "fl_div (Fin x) PInf = Fin 0"
| "fl_div (Fin x) MInf = Fin 0"
| "fl_div PInf (Fin y) = (if 0 \<le> y then PInf else MInf)"
| "fl_div MInf (Fin y) = (if 0 \<le> y then MInf else PInf)"
| "fl_div PInf PInf = NaN"
| "fl_div PInf MInf = NaN"
| "fl_div MInf PInf = NaN"
| "fl_div MInf MInf = NaN"

fun fl_lt :: "fl \<Rightarrow> fl \<Rightarrow> bool" where
  "fl_lt (Fin x) (Fin y) = (x < y)"
| "fl_lt NaN _ = False"
| "fl_lt _ NaN = False"
| "fl_lt MInf MInf = False"
| "fl_lt MInf _ = True"
| "fl_lt PInf _ = False"
| "fl_lt (Fin x) PInf = True"
| "fl_lt (Fin x) MInf = False"

fun fl_le :: "fl \<Rightarrow> fl \<Rightarrow> bool" where
  "fl_le (Fin x) (Fin y) = (x \<le> y)"
| "fl_le NaN _ = False"
| "fl_le _ NaN = False"
| "fl_le MInf _ = True"
| "fl_le PInf PInf = True"
| "fl_le PInf _ = False"
| "fl_le (Fin x) PInf = True"
| "fl_le (Fin x) MInf = False"

definition fl_gt :: "fl \<Rightarrow> fl \<Rightarrow> bool" where
  "fl_gt a b = fl_lt b a"

definition fl_ge :: "fl \<Rightarrow> fl \<Rightarrow> bool" where
  "fl_ge a b = fl_le b a"

text \<open>\<open>==\<close> on cells: NaN is equal to nothing, itself included.\<close>

definition fl_eq :: "fl \<Rightarrow> fl \<Rightarrow> bool" where
  "fl_eq a b = (\<not> isnan a \<and> a = b)"

text \<open>
  A grid is a list of rows. The element-wise operations of numpy and xarray become maps
  over rows and cells; \<open>cell\<close> reads a cell and \<open>inb\<close> says that an index is inside the grid.
\<close>

type_synonym 'a grid = "'a list list"

definition cell :: "'a grid \<Rightarrow> nat \<Rightarrow> nat \<Rightarrow> 'a" where
  "cell g i j = g ! i ! j"

definition inb :: "'a grid \<Rightarrow> nat \<Rightarrow> nat \<Rightarrow> bool" where
  "inb g i j = (i < length g \<and> j < length (g ! i))"

definition shape :: "'a grid \<Rightarrow> nat list" where
  "shape a = map length a"

definition same_shape :: "'a grid \<Rightarrow> 'b grid \<Rightarrow> bool" where
  "same_shape a b = (shape a = shape b)"

definition gmap :: "('a \<Rightarrow> 'b) \<Rightarrow> 'a grid \<Rightarrow> 'b grid" where
  "gmap f a = map (map f) a"

definition gmap2 :: "('a \<Rightarrow> 'b \<Rightarrow> 'c) \<Rightarrow> 'a grid \<Rightarrow> 'b grid \<Rightarrow> 'c grid" where
  "gmap2 f a b = map2 (map2 f) a b"

text \<open>\<open>zeros_like\<close>: a grid of the same shape filled with zeros.\<close>

definition zeros_like :: "'a grid \<Rightarrow> 'b::zero grid" where
  "zeros_like a = gmap (\<lambda>_. 0) a"

datatype error = ValueError | KeyError

section \<open>The high-pass kernels\<close>

text \<open>
  \<open>_make_kern\<close> (PYF_detection.py): one literal integer array per supported size, divided
  by \<open>np.sum\<close> of the array; any other size raises \<open>ValueError\<close>.
\<close>

definition np_sum :: "real grid \<Rightarrow> real" where
  "np_sum arr = sum_list (map sum_list arr)"

definition make_kern :: "nat \<Rightarrow> error + real grid" where
  "make_kern ksize =
    (if ksize = 3 then
       (let arr = [[-1, -1, -1],
                   [-1, 9, -1],
                   [-1, -1, -1]]
        in Inr (gmap (\<lambda>x. x / np_sum arr) arr))
     else if ksize = 5 then
       (let arr = [[-1, -1, -1, -1, -1],
                   [-1, -1, -1, -1, -1],
                   [-1, -1, 25, -1, -1],
                   [-1, -1, -1, -1, -1],
                   [-1, -1, -1, -1, -1]]
        in Inr (gmap (\<lambda>x. x / np_sum arr) arr))
     else if ksize = 7 then
       (let arr = [[-1, -1, -1, -1, -1, -1, -1],
                   [-1, -1, -1, -1, -1, -1, -1],
                   [-1, -1, -1, -1, -1, -1, -1],
                   [-1, -1, -1, 49, -1, -1, -1],
                   [-1, -1, -1, -1, -1, -1, -1],
                   [-1, -1, -1, -1, -1, -1, -1],
                   [-1, -1, -1, -1, -1, -1, -1]]
        in Inr (gmap (\<lambda>x. x / np_sum arr) arr))
     else if ksize = 9 then
       (let arr = [[-1, -1, -1, -1, -1, -1, -1, -1, -1],
                   [-1, -1, -1, -1, -1, -1, -1, -1, -1],
                   [-1, -1, -1, -1, -1, -1, -1, -1, -1],
                   [-1, -1, -1, -1, -1, -1, -1, -1, -1],
                   [-1, -1, -1, -1, 81, -1, -1, -1, -1],
                   [-1, -1, -1, -1, -1, -1, -1, -1, -1],
                   [-1, -1, -1, -1, -1, -1, -1, -1, -1],
                   [-1, -1, -1, -1, -1, -1, -1, -1, -1],
                   [-1, -1, -1, -1, -1, -1, -1, -1, -1]]
        in Inr (gmap (\<lambda>x. x / np_sum arr) arr))
     else if ksize = 11 then
       (let arr = [[-1, -1, -1, -1, -1, -1, -1, -1, -1, -1, -1],
                   [-1, -1, -1, -1, -1, -1, -1, -1, -1, -1, -1],
                   [-1, -1, -1, -1, -1, -1, -1, -1, -1, -1, -1],
                   [-1, -1, -1, -1, -1, -1, -1, -1, -1, -1, -1],
                   [-1, -1, -1, -1, -1, -1, -1, -1, -1, -1, -1],
                   [-1, -1, -1, -1, -1, 121, -1, -1, -1, -1, -1],
                   [-1, -1, -1, -1, -1, -1, -1, -1, -1, -1, -1],
                   [-1, -1, -1, -1, -1, -1, -1, -1, -1, -1, -1],
                   [-1, -1, -1, -1, -1, -1, -1, -1, -1, -1, -1],
                   [-1, -1, -1, -1, -1, -1, -1, -1, -1, -1, -1],
                   [-1, -1, -1, -1, -1, -1, -1, -1, -1, -1, -1]]
        in Inr (gmap (\<lambda>x. x / np_sum arr) arr))
     else Inl ValueError)"

text \<open>
  The stencil in the words of the specification: \<open>N\<^sup>2\<close> at the centre cell and \<open>-1\<close>
  everywhere else; and the two normalisations that are compared below, by the sum of
  the weights and by the sum of their absolute values.
\<close>

definition stencil :: "nat \<Rightarrow> real grid" where
  "stencil n = map (\<lambda>i. map (\<lambda>j. if i = n div 2 \<and> j = n div 2 then real (n * n) else - 1)
                               [0..<n]) [0..<n]"

definition stencil_by_sum :: "nat \<Rightarrow> real grid" where
  "stencil_by_sum n = gmap (\<lambda>x. x / np_sum (stencil n)) (stencil n)"

definition stencil_by_abs_sum :: "nat \<Rightarrow> real grid" where
  "stencil_by_abs_sum n = gmap (\<lambda>x. x / np_sum (gmap abs (stencil n))) (stencil n)"

section \<open>Stage 1 thresholds\<close>

text \<open>
  The values of the module of constants \<open>PYF_Consts\<close> are parameters of the model: one
  record holds every constant that the functions read, and every theorem holds for all
  values of the constants that satisfy its hypotheses.
  The scalar constants are finite numbers; \<open>rad_to_bt_dict\<close> is the dictionary from
  platform names to the sensor constant of the FRP estimate.
\<close>

record pyf_consts =
  mir_thresh_bt :: real
  mir_thresh_sza_adj :: real
  mir_thresh_limit :: real
  btd_thresh_bt :: real
  btd_thresh_sza_adj :: real
  btd_thresh_limit :: real
  kern_thresh_btd :: real
  kern_thresh_sza_adj :: real
  stage1_pass_thresh :: real
  lsm_land_val :: real
  sigma :: real
  rad_to_bt_dict :: "string \<rightharpoonup> real"

text \<open>
  \<open>xr.where(cond, x, y)\<close> with a scalar or a grid in each branch is written cell by cell
  as an \<open>if\<close> under \<open>gmap\<close> or \<open>gmap2\<close>.

  \<open>set_initial_thresholds\<close> (PYF_detection.py): the linear threshold in the solar zenith
  angle, replaced by the limit where it is below the limit.
\<close>

definition set_initial_thresholds ::
  "fl grid \<Rightarrow> real \<Rightarrow> real \<Rightarrow> real \<Rightarrow> real \<Rightarrow> real \<Rightarrow> real \<Rightarrow> fl grid \<times> fl grid" where
  "set_initial_thresholds sza mir_bt mir_sza_adj mir_limit btd_bt btd_sza_adj btd_limit =
    (let mir_thresh = gmap (\<lambda>s. fl_add (Fin mir_bt) (fl_mul (Fin mir_sza_adj) s)) sza;
         mir_thresh = gmap (\<lambda>t. if fl_lt t (Fin mir_limit) then Fin mir_limit else t) mir_thresh;
         btd_thresh = gmap (\<lambda>s. fl_add (Fin btd_bt) (fl_mul (Fin btd_sza_adj) s)) sza;
         btd_thresh = gmap (\<lambda>t. if fl_lt t (Fin btd_limit) then Fin btd_limit else t) btd_thresh
     in (mir_thresh, btd_thresh))"

text \<open>The call with the default arguments, which are the constants of the module.\<close>

definition set_initial_thresholds_default :: "pyf_consts \<Rightarrow> fl grid \<Rightarrow> fl grid \<times> fl grid" where
  "set_initial_thresholds_default c sza =
    set_initial_thresholds sza (mir_thresh_bt c) (mir_thresh_sza_adj c) (mir_thresh_limit c)
      (btd_thresh_bt c) (btd_thresh_sza_adj c) (btd_thresh_limit c)"

section \<open>Fire radiative power\<close>

text \<open>
  The entries of \<open>data_dict\<close> that \<open>calc_frp\<close> (PYF_basic.py) reads and writes. A platform
  name that is missing from \<open>rad_to_bt_dict\<close> raises \<open>KeyError\<close>.
\<close>

record data_dict =
  platform_name :: string
  pix_area :: "fl grid"
  MIR__BT :: "fl grid"
  mean_mir :: "fl grid"
  fire_dets :: "fl grid"
  frp_est :: "fl grid"

definition calc_frp :: "pyf_consts \<Rightarrow> data_dict \<Rightarrow> error + data_dict" where
  "calc_frp c d =
    (case rad_to_bt_dict c (platform_name d) of
       None \<Rightarrow> Inl KeyError
     | Some a_val \<Rightarrow>
        (let frp = gmap2 fl_mul
                     (gmap (\<lambda>a. fl_div (fl_mul a (Fin (sigma c))) (Fin a_val)) (pix_area d))
                     (gmap2 fl_sub (MIR__BT d) (mean_mir d));
             frp = gmap2 (\<lambda>m f. if fl_gt m (Fin 0) then f else Fin 0) (mean_mir d) frp;
             frp = gmap2 (\<lambda>m f. if fl_gt m (Fin 0) then f else Fin 0) (fire_dets d) frp
         in Inr (d\<lparr>frp_est := frp\<rparr>)))"

section \<open>Stage 5: the confidence of a detection\<close>

text \<open>
  \<open>comp_stat\<close> (PYF_basic.py): the linear ramp of equation 8, set to 0 below \<open>a\<close> and to 1
  above \<open>b\<close> by two \<open>xr.where\<close>. A scalar bound is broadcast over the grid by \<open>full_like\<close>.
\<close>

definition full_like :: "'a grid \<Rightarrow> 'b \<Rightarrow> 'b grid" where
  "full_like a v = gmap (\<lambda>_. v) a"

definition comp_stat :: "fl grid \<Rightarrow> fl grid \<Rightarrow> fl grid \<Rightarrow> fl grid" where
  "comp_stat x a b =
    (let out = gmap2 fl_div (gmap2 fl_sub x a) (gmap2 fl_sub b a);
         out = gmap2 (\<lambda>c out. if c then Fin 0 else out) (gmap2 fl_lt x a) out;
         out = gmap2 (\<lambda>c out. if c then Fin 1 else out) (gmap2 fl_gt x b) out
     in out)"

text \<open>
  \<open>np.power\<close> with a positive exponent that is not an integer, as in the fifth root of
  \<open>do_stage5\<close>: a negative base gives NaN, and both infinities give the positive infinity.
\<close>

fun np_power :: "fl \<Rightarrow> real \<Rightarrow> fl" where
  "np_power (Fin x) e = (if x < 0 then NaN else Fin (x powr e))"
| "np_power PInf e = PInf"
| "np_power MInf e = PInf"
| "np_power NaN e = NaN"

text \<open>\<open>do_stage5\<close> (PYF_basic.py), statement by statement.\<close>

definition do_stage5 ::
  "fl grid \<Rightarrow> fl grid \<Rightarrow> fl grid \<Rightarrow> fl grid \<Rightarrow> fl grid \<Rightarrow> fl grid \<Rightarrow> fl grid \<Rightarrow> fl grid \<Rightarrow>
   fl grid \<Rightarrow> fl grid \<Rightarrow> fl grid" where
  "do_stage5 btd mea_btd std_btd bt_mir mea_mir std_mir sza nwin ncld nwat =
    (let nig_sza = 60;
         sza_thr = gmap (\<lambda>s. if fl_gt s (Fin nig_sza) then Fin nig_sza else s) sza;
         z4 = gmap2 fl_div (gmap2 fl_sub bt_mir mea_mir) std_mir;
         zdt = gmap2 fl_div (gmap2 fl_sub btd mea_btd) std_btd;
         min_c1_day = 287; min_c1_nig = 280; max_c1_day = 327; max_c1_nig = 310;
         min_c2 = 0.9; max_c2 = 6;
         min_c3_day = 2; min_c3_nig = 1.5; max_c3_day = 6; max_c3_nig = 5;
         c1_grad = (min_c1_nig - min_c1_day) / nig_sza;
         min_c1 = gmap (\<lambda>s. fl_add (Fin min_c1_day) (fl_mul (Fin c1_grad) s)) sza_thr;
         c1_grad = (max_c1_nig - max_c1_day) / nig_sza;
         max_c1 = gmap (\<lambda>s. fl_add (Fin max_c1_day) (fl_mul (Fin c1_grad) s)) sza_thr;
         c3_grad = (min_c3_nig - min_c3_day) / nig_sza;
         min_c3 = gmap (\<lambda>s. fl_add (Fin min_c3_day) (fl_mul (Fin c3_grad) s)) sza_thr;
         c3_grad = (max_c3_nig - max_c3_day) / nig_sza;
         max_c3 = gmap (\<lambda>s. fl_add (Fin max_c3_day) (fl_mul (Fin c3_grad) s)) sza_thr;
         c1 = comp_stat bt_mir min_c1 max_c1;
         c2 = comp_stat z4 (full_like z4 (Fin min_c2)) (full_like z4 (Fin max_c2));
         c3 = comp_stat zdt min_c3 max_c3;
         xc = gmap2 fl_div ncld (gmap (\<lambda>n. fl_div n (Fin 2)) nwin);
         c4 = gmap (fl_sub (Fin 1)) (comp_stat xc (full_like xc (Fin 0)) (full_like xc (Fin 1)));
         xw = gmap2 fl_div nwat (gmap (\<lambda>n. fl_div n (Fin 2)) nwin);
         c5 = gmap (fl_sub (Fin 1)) (comp_stat xw (full_like xw (Fin 0)) (full_like xw (Fin 1)));
         outarr_conf = gmap (\<lambda>p. np_power p (1 / 5))
                         (gmap2 fl_mul (gmap2 fl_mul (gmap2 fl_mul (gmap2 fl_mul c1 c2) c3) c4) c5)
     in outarr_conf)"

text \<open>
  The same computation read at one cell: \<open>comp_stat_px\<close> and \<open>do_stage5_px\<close> are what
  \<open>comp_stat\<close> and \<open>do_stage5\<close> compute at each cell of grids of one shape (lemmas
  \<open>cell_comp_stat\<close> and \<open>cell_do_stage5\<close> below).
\<close>

definition comp_stat_px :: "fl \<Rightarrow> fl \<Rightarrow> fl \<Rightarrow> fl" where
  "comp_stat_px x a b =
     (let out = fl_div (fl_sub x a) (fl_sub b a);
          out = (if fl_lt x a then Fin 0 else out)
      in if fl_gt x b then Fin 1 else out)"

definition sza_clip :: "fl \<Rightarrow> fl" where
  "sza_clip s = (if fl_gt s (Fin 60) then Fin 60 else s)"

definition do_stage5_px ::
  "fl \<Rightarrow> fl \<Rightarrow> fl \<Rightarrow> fl \<Rightarrow> fl \<Rightarrow> fl \<Rightarrow> fl \<Rightarrow> fl \<Rightarrow> fl \<Rightarrow> fl \<Rightarrow> fl" where
  "do_stage5_px btd mea_btd std_btd bt_mir mea_mir std_mir sza nwin ncld nwat =
    (let s = sza_clip sza;
         c1 = comp_stat_px bt_mir (fl_add (Fin 287) (fl_mul (Fin ((280 - 287) / 60)) s))
                                  (fl_add (Fin 327) (fl_mul (Fin ((310 - 327) / 60)) s));
         c2 = comp_stat_px (fl_div (fl_sub bt_mir mea_mir) std_mir) (Fin 0.9) (Fin 6);
         c3 = comp_stat_px (fl_div (fl_sub btd mea_btd) std_btd)
                           (fl_add (Fin 2) (fl_mul (Fin ((1.5 - 2) / 60)) s))
                           (fl_add (Fin 6) (fl_mul (Fin ((5 - 6) / 60)) s));
         c4 = fl_sub (Fin 1) (comp_stat_px (fl_div ncld (fl_div nwin (Fin 2))) (Fin 0) (Fin 1));
         c5 = fl_sub (Fin 1) (comp_stat_px (fl_div nwat (fl_div nwin (Fin 2))) (Fin 0) (Fin 1))
     in np_power (fl_mul (fl_mul (fl_mul (fl_mul c1 c2) c3) c4) c5) (1 / 5))"

text \<open>
  The confidence in the words of the specification: the clipped ramp
  \<open>clip((x - a) / (b - a), 0, 1)\<close> and the five components, of which the confidence is the
  geometric mean. Three components are ramps of a quotient: the two z-scores and the
  cloud and water fractions. \<open>qramp\<close> is the ramp of the quotient \<open>num / den\<close>, where a
  quotient by zero of a positive number is the positive infinity, with the ramp 1,
  and of a negative number the negative infinity, with the ramp 0. The quotient 0/0
  is invalid and has no ramp; \<open>qramp\<close> is used only where the quotient is not 0/0.
\<close>

definition ramp :: "real \<Rightarrow> real \<Rightarrow> real \<Rightarrow> real" where
  "ramp x a b = max 0 (min 1 ((x - a) / (b - a)))"

definition qramp :: "real \<Rightarrow> real \<Rightarrow> real \<Rightarrow> real \<Rightarrow> real" where
  "qramp num den a b = (if den = 0 then (if 0 < num then 1 else 0) else ramp (num / den) a b)"

definition stage5_parts ::
  "real \<Rightarrow> real \<Rightarrow> real \<Rightarrow> real \<Rightarrow> real \<Rightarrow> real \<Rightarrow> real \<Rightarrow> real \<Rightarrow> real \<Rightarrow> real \<Rightarrow> real list" where
  "stage5_parts btd mea_btd std_btd bt_mir mea_mir std_mir sza nwin ncld nwat =
    (let s = min sza 60 in
     [ramp bt_mir (287 + (280 - 287) / 60 * s) (327 + (310 - 327) / 60 * s),
      qramp (bt_mir - mea_mir) std_mir 0.9 6,
      qramp (btd - mea_btd) std_btd (2 + (1.5 - 2) / 60 * s) (6 + (5 - 6) / 60 * s),
      1 - qramp ncld (nwin / 2) 0 1,
      1 - qramp nwat (nwin / 2) 0 1])"

section \<open>Convolution and the stage 1 tests\<close>

text \<open>
  \<open>convolve\<close> of \<open>dask_image.ndfilters\<close> is called without a mode, so the border is
  extended by the default mode \<open>reflect\<close>: the grid is mirrored at its edge, the edge
  cell repeated (\<open>d c b a | a b c d | d c b a\<close>). \<open>reflect_idx n i\<close> is the index inside
  \<open>0..<n\<close> that the index \<open>i\<close> of the extended axis reads. A convolution flips the
  kernel: the weight at \<open>(a, b)\<close> multiplies the cell at offset
  \<open>(k div 2 - a, k div 2 - b)\<close> from the centre. The output has the type of the input, so
  the convolution is written once for any multiplication, addition and zero.

  The filter runs over the overlapping blocks of \<open>map_overlap\<close>, whose depth is the
  half-width of the kernel, and \<open>map_overlap\<close> raises \<open>ValueError\<close> when an axis of the
  grid is shorter than the depth. \<open>ncols\<close> is the length of the second axis.
\<close>

definition reflect_idx :: "nat \<Rightarrow> int \<Rightarrow> nat" where
  "reflect_idx n i =
    (let m = i mod (2 * int n) in nat (if m < int n then m else 2 * int n - 1 - m))"

definition ncols :: "'a grid \<Rightarrow> nat" where
  "ncols g = (if g = [] then 0 else length (hd g))"

definition convolve_cells ::
  "('a \<Rightarrow> 'a \<Rightarrow> 'a) \<Rightarrow> ('a \<Rightarrow> 'a \<Rightarrow> 'a) \<Rightarrow> 'a \<Rightarrow> 'a grid \<Rightarrow> 'a grid \<Rightarrow> 'a grid" where
  "convolve_cells mul add zero img weights =
    map (\<lambda>i. map (\<lambda>j.
          foldl add zero
            [mul (weights ! a ! b)
                 (let r = reflect_idx (length img) (int i + int (length weights div 2) - int a)
                  in img ! r
                       ! reflect_idx (length (img ! r))
                           (int j + int (length (weights ! a) div 2) - int b)).
             a \<leftarrow> [0..<length weights], b \<leftarrow> [0..<length (weights ! a)]])
        [0..<length (img ! i)]) [0..<length img]"

definition convolve_with ::
  "('a \<Rightarrow> 'a \<Rightarrow> 'a) \<Rightarrow> ('a \<Rightarrow> 'a \<Rightarrow> 'a) \<Rightarrow> 'a \<Rightarrow> 'a grid \<Rightarrow> 'a grid \<Rightarrow> error + 'a grid" where
  "convolve_with mul add zero img weights =
    (if length img < length weights div 2 \<or> ncols img < ncols weights div 2
     then Inl ValueError
     else Inr (convolve_cells mul add zero img weights))"

definition convolve :: "fl grid \<Rightarrow> real grid \<Rightarrow> error + fl grid" where
  "convolve img weights = convolve_with fl_mul fl_add (Fin 0) img (gmap Fin weights)"

text \<open>
  \<open>nanstd\<close>: the standard deviation (with divisor \<open>n\<close>) of the cells that are not NaN,
  and NaN when there is none.
\<close>

fun fl_sqrt :: "fl \<Rightarrow> fl" where
  "fl_sqrt (Fin x) = (if x < 0 then NaN else Fin (sqrt x))"
| "fl_sqrt PInf = PInf"
| "fl_sqrt MInf = NaN"
| "fl_sqrt NaN = NaN"

definition nanstd :: "fl grid \<Rightarrow> fl" where
  "nanstd a =
    (let vals = filter (\<lambda>v. \<not> isnan v) (concat a);
         n = length vals
     in if n = 0 then NaN
        else (let mean = fl_div (foldl fl_add (Fin 0) vals) (Fin (real n));
                  sq = map (\<lambda>v. fl_mul (fl_sub v mean) (fl_sub v mean)) vals
              in fl_sqrt (fl_div (foldl fl_add (Fin 0) sq) (Fin (real n)))))"

text \<open>
  \<open>do_apply_stg1b_kern2\<close> (PYF_detection.py); the \<open>ValueError\<close> of \<open>_make_kern\<close> and that of
  \<open>convolve\<close> go through.
\<close>

definition do_apply_stg1b_kern2 :: "fl grid \<Rightarrow> nat \<Rightarrow> error + fl grid \<times> fl" where
  "do_apply_stg1b_kern2 in_variable ksize =
    (case make_kern ksize of
       Inl e \<Rightarrow> Inl e
     | Inr kern \<Rightarrow>
        (case convolve in_variable kern of
           Inl e \<Rightarrow> Inl e
         | Inr out_ker \<Rightarrow>
            (let out_std = nanstd out_ker
             in Inr (out_ker, out_std))))"

text \<open>
  \<open>stage1_tests\<close> (PYF_detection.py). \<open>stage1b_votes\<close> is its loop over the kernel sizes:
  each kernel test that a cell passes adds one vote to the counter \<open>main_testarr\<close>, which
  starts at zero and so holds whole numbers. \<open>hard_gate\<close> is
  \<open>xr.where(test, main_testarr + 1, 0)\<close>, the form of the MIR and of the BTD test. The
  thresholds come from \<open>set_initial_thresholds\<close> with its default arguments. The result
  is the array of type uint8 that is stored in the copy of \<open>in_sza\<close>.
\<close>

fun stage1b_votes :: "fl grid \<Rightarrow> fl grid \<Rightarrow> nat list \<Rightarrow> real grid \<Rightarrow> error + real grid" where
  "stage1b_votes in_btd btd_kern_thr [] main_testarr = Inr main_testarr"
| "stage1b_votes in_btd btd_kern_thr (ksize # ksizes) main_testarr =
    (case do_apply_stg1b_kern2 in_btd ksize of
       Inl e \<Rightarrow> Inl e
     | Inr (kerval, stdval) \<Rightarrow>
        (let tmpdata = gmap2 (\<lambda>k t. if fl_ge k (fl_mul stdval t) then 1 else (0::nat))
                         kerval btd_kern_thr;
             main_testarr = gmap2 (\<lambda>t m. if t > 0 then m + 1 else m) tmpdata main_testarr
         in stage1b_votes in_btd btd_kern_thr ksizes main_testarr))"

definition hard_gate :: "bool grid \<Rightarrow> real grid \<Rightarrow> real grid" where
  "hard_gate passes main_testarr = gmap2 (\<lambda>p m. if p then m + 1 else 0) passes main_testarr"

definition stage1_tests ::
  "pyf_consts \<Rightarrow> fl grid \<Rightarrow> fl grid \<Rightarrow> fl grid \<Rightarrow> fl grid \<Rightarrow> fl grid \<Rightarrow> nat list \<Rightarrow> real \<Rightarrow> real \<Rightarrow>
   bool \<Rightarrow> real \<Rightarrow> error + nat grid" where
  "stage1_tests c in_mir in_btd in_vid in_sza in_lsm ksizes kern_thresh_btd' kern_thresh_sza_adj'
      do_lsm_mask lsm_land_val' =
    (let btd_kern_thr =
           gmap (\<lambda>s. fl_add (Fin kern_thresh_btd') (fl_mul (Fin kern_thresh_sza_adj') s)) in_sza;
         (mir_thresh, btd_thresh) = set_initial_thresholds_default c in_sza;
         main_testarr = zeros_like in_mir
     in case stage1b_votes in_btd btd_kern_thr ksizes main_testarr of
          Inl e \<Rightarrow> Inl e
        | Inr main_testarr \<Rightarrow>
           (let main_testarr = hard_gate (gmap2 fl_ge in_mir mir_thresh) main_testarr;
                main_testarr = hard_gate (gmap2 fl_ge in_btd btd_thresh) main_testarr;
                main_testarr =
                  (if do_lsm_mask
                   then gmap2 (\<lambda>l m. if fl_eq l (Fin lsm_land_val') then m else 0)
                          in_lsm main_testarr
                   else main_testarr);
                main_testarr = gmap2 (\<lambda>v m. if fl_ge v (Fin 0) then m else 0) in_vid main_testarr
            in Inr (gmap (\<lambda>m. if m \<ge> stage1_pass_thresh c then 1 else 0) main_testarr)))"

text \<open>
  What \<open>stage1_tests\<close> computes at one cell from the number of kernel votes of the cell
  (lemma \<open>stage1_tests_cell\<close> below).
\<close>

definition stage1_px ::
  "pyf_consts \<Rightarrow> real \<Rightarrow> fl \<Rightarrow> fl \<Rightarrow> fl \<Rightarrow> fl \<Rightarrow> fl \<Rightarrow> fl \<Rightarrow> bool \<Rightarrow> real \<Rightarrow> nat" where
  "stage1_px c votes mir btd vid lsm_v mir_thresh btd_thresh do_lsm_mask lsm_land_val' =
    (let m = (if fl_ge mir mir_thresh then votes + 1 else 0);
         m = (if fl_ge btd btd_thresh then m + 1 else 0);
         m = (if do_lsm_mask then (if fl_eq lsm_v (Fin lsm_land_val') then m else 0) else m);
         m = (if fl_ge vid (Fin 0) then m else 0)
     in if m \<ge> stage1_pass_thresh c then 1 else 0)"

section \<open>The background radiance of the night detector\<close>

text \<open>
  \<open>np.histogram(a, bins=n, range=(lo, hi))\<close>: \<open>n\<close> bins of equal width between \<open>lo\<close> and
  \<open>hi\<close>, each closed on the left and open on the right but for the last, which is
  closed on both sides; values outside the range, NaN included, are not counted. The
  edges are \<open>np.linspace(lo, hi, n + 1)\<close>. A range with \<open>lo > hi\<close> raises \<open>ValueError\<close> and
  an empty range is widened by one half on each side.
\<close>

definition bin_edge :: "nat \<Rightarrow> real \<Rightarrow> real \<Rightarrow> nat \<Rightarrow> real" where
  "bin_edge n lo hi k = lo + real k * ((hi - lo) / real n)"





text \<open>
  \<open>np.nanmax\<close>: the maximum of the values that are not NaN, NaN when every value is NaN,
  and \<open>ValueError\<close> on an empty array.
\<close>

definition fl_max :: "fl \<Rightarrow> fl \<Rightarrow> fl" where
  "fl_max a b = (if fl_lt a b then b else a)"


text \<open>
  \<open>compute_background_rad\<close> (PYF_detection.py). \<open>night_positive\<close> is its selection of the
  radiances, by the two boolean masks; \<open>hist_walk\<close> is its loop, which leaves in \<open>i\<close> the
  index of the first bin where the cumulative sum exceeds the threshold, or the index of
  the last bin when no bin does.

  The bin that the loop returns depends on the last bit of the cumulative sum, so the
  normalised counts and their sum are not exact here: the quotient and the sum of two
  doubles are the exact results rounded to a double, and the rounding \<open>rnd\<close> is a
  parameter of the model. Every theorem holds for all roundings, that of binary64 among
  them. The counts and their total are whole numbers and exact.
\<close>

definition fl_round :: "(real \<Rightarrow> real) \<Rightarrow> fl \<Rightarrow> fl" where
  "fl_round rnd v = (case v of Fin x \<Rightarrow> Fin (rnd x) | PInf \<Rightarrow> PInf | MInf \<Rightarrow> MInf | NaN \<Rightarrow> NaN)"







section \<open>The night detector\<close>

text \<open>
  \<open>maximum_filter\<close> of \<open>dask_image.ndfilters\<close>, with the default mode \<open>reflect\<close> and the
  blocks of \<open>map_overlap\<close> as \<open>convolve\<close>: the maximum over the window of the given size
  around each cell. Where the window holds a NaN, the value that the library returns
  depends on where the NaN stands in the running line of the filter; it is the
  parameter \<open>nan_max\<close> of the model, a function of the grid and of the cell, and every
  theorem holds for all such functions.
\<close>

definition maximum_cells ::
  "(fl grid \<Rightarrow> nat \<Rightarrow> nat \<Rightarrow> fl) \<Rightarrow> fl grid \<Rightarrow> nat \<Rightarrow> nat \<Rightarrow> fl grid" where
  "maximum_cells nan_max img sr sc =
    map (\<lambda>i. map (\<lambda>j.
          (let ws = [(let r = reflect_idx (length img) (int i + int a - int (sr div 2))
                      in img ! r ! reflect_idx (length (img ! r)) (int j + int b - int (sc div 2))).
                     a \<leftarrow> [0..<sr], b \<leftarrow> [0..<sc]]
           in if list_ex isnan ws then nan_max img i j else foldl fl_max (hd ws) (tl ws)))
        [0..<length (img ! i)]) [0..<length img]"

definition maximum_filter ::
  "(fl grid \<Rightarrow> nat \<Rightarrow> nat \<Rightarrow> fl) \<Rightarrow> fl grid \<Rightarrow> nat \<times> nat \<Rightarrow> error + fl grid" where
  "maximum_filter nan_max img sz =
    (let (sr, sc) = sz in
     if length img < sr div 2 \<or> ncols img < sc div 2 then Inl ValueError
     else Inr (maximum_cells nan_max img sr sc))"

text \<open>
  The masks of the detector are arrays of type uint8 with the values 0 and 1, so the
  sum of a 3 by 3 window is at most 9 and the convolution of a mask with
  \<open>np.ones((3, 3))\<close> is a convolution of natural numbers.
\<close>

definition convolve_u8 :: "nat grid \<Rightarrow> nat grid \<Rightarrow> error + nat grid" where
  "convolve_u8 img weights = convolve_with (*) (+) 0 img weights"

definition ones :: "nat \<Rightarrow> nat \<Rightarrow> nat grid" where
  "ones r c = replicate r (replicate c 1)"

text \<open>
  The de-duplication of \<open>run_basic_night_detection\<close> (PYF_detection.py): the sum of the
  candidates and the maximum of the VIS difference in the 3 by 3 window of each cell;
  where the sum is 1, the cell becomes 1 or 0 as its VIS difference is equal to the
  maximum or not, and elsewhere it keeps its value.
\<close>

definition dedup_step ::
  "(fl grid \<Rightarrow> nat \<Rightarrow> nat \<Rightarrow> fl) \<Rightarrow> nat grid \<Rightarrow> fl grid \<Rightarrow> error + nat grid" where
  "dedup_step nan_max out_dets in_vid =
    (case convolve_u8 out_dets (ones 3 3) of
       Inl e \<Rightarrow> Inl e
     | Inr det_sum \<Rightarrow>
        (case maximum_filter nan_max in_vid (3, 3) of
           Inl e \<Rightarrow> Inl e
         | Inr det_max \<Rightarrow>
            (let det_pos = gmap2 (\<lambda>s v. if s = 1 then v else Fin 0) det_sum in_vid;
                 det_pos = gmap2 (\<lambda>p m. if fl_eq p m then 1 else 0) det_pos det_max
             in Inr (gmap2 (\<lambda>s (p, d). if s = 1 then p else d) det_sum
                       (gmap2 Pair det_pos out_dets)))))"





text \<open>
  The 3 by 3 neighbourhood of a cell, clipped to the grid: the cells of the grid at most
  one row and one column away, row by row. For a cell that is not on the border these
  are the nine cells of the window.
\<close>

definition nbhd3 :: "'a grid \<Rightarrow> nat \<Rightarrow> nat \<Rightarrow> 'a list" where
  "nbhd3 g i j =
    [cell g a b. a \<leftarrow> [i - 1..<min (i + 2) (length g)],
                 b \<leftarrow> [j - 1..<min (j + 2) (length (g ! i))]]"

section \<open>The MIR radiance without its thermal part\<close>

text \<open>
  \<open>calc_rad_fromtb\<close> (PYF_basic.py): the radiance of a brightness temperature at a central
  wavelength. \<open>mir_rad_no_ir\<close> is the grid that \<open>compute_fire_datasets\<close> stores under
  \<open>MIR_RAD_NO_IR\<close>: the MIR radiance minus the radiance expected from the LW1 brightness
  temperature, with every cell that is not finite replaced by 0
  (\<open>np.where(np.isfinite(mir_diffrad), mir_diffrad, 0)\<close>). The central wavelength, which
  the code reads from the spectral response of the sensor, is a parameter. The
  exponential of a finite cell is exact, as the rest of the arithmetic on finite cells.
\<close>

fun fl_exp :: "fl \<Rightarrow> fl" where
  "fl_exp (Fin x) = Fin (exp x)"
| "fl_exp PInf = PInf"
| "fl_exp MInf = Fin 0"
| "fl_exp NaN = NaN"

definition calc_rad_fromtb :: "fl grid \<Rightarrow> real \<Rightarrow> fl grid" where
  "calc_rad_fromtb temp cwl =
    (let c1 = 1.1910429 * 10 ^ 8;
         c2 = 1.4387752 * 10 ^ 4;
         first = c1;
         second = gmap (\<lambda>t. fl_mul (Fin (cwl ^ 5))
                               (fl_sub (fl_exp (fl_div (Fin c2) (fl_mul (Fin cwl) t))) (Fin 1)))
                    temp
     in gmap (\<lambda>s. fl_div (Fin first) s) second)"

definition mir_rad_no_ir :: "fl grid \<Rightarrow> fl grid \<Rightarrow> real \<Rightarrow> fl grid" where
  "mir_rad_no_ir mir_rad lw1_bt wvl_mir =
    (let exp_rad = calc_rad_fromtb lw1_bt wvl_mir;
         mir_diffrad = gmap2 fl_sub mir_rad exp_rad;
         mir_diffrad = gmap (\<lambda>d. if isfinite d then d else Fin 0) mir_diffrad
     in mir_diffrad)"

section \<open>Example inputs\<close>

text \<open>
  Concrete constants and scenes on which the theorems below are instantiated. The
  thresholds are the default values that the docstrings of \<open>set_initial_thresholds\<close> and
  \<open>stage1_tests\<close> give; the land value of the land-sea mask is 2. The scene of stage 1
  has 4 by 4 cells, one of them hot, and \<open>uniform4\<close> is a grid of that size with one
  value in every cell.
\<close>

definition consts_example :: pyf_consts where
  "consts_example =
    \<lparr> mir_thresh_bt = 310.5, mir_thresh_sza_adj = - 0.3, mir_thresh_limit = 280,
      btd_thresh_bt = 1.75, btd_thresh_sza_adj = - 0.0049, btd_thresh_limit = 1,
      kern_thresh_btd = 1.5, kern_thresh_sza_adj = - 0.012,
      stage1_pass_thresh = 4, lsm_land_val = 2, sigma = 5.67 / 10 ^ 8,
      rad_to_bt_dict = [''Himawari-8'' \<mapsto> 3 / 10 ^ 9] \<rparr>"

definition uniform4 :: "'a \<Rightarrow> 'a grid" where
  "uniform4 v = [[v, v, v, v], [v, v, v, v], [v, v, v, v], [v, v, v, v]]"

definition stage1_mir_example :: "fl grid" where
  "stage1_mir_example = [[Fin 300, Fin 300, Fin 300, Fin 300],
                         [Fin 300, Fin 340, Fin 300, Fin 300],
                         [Fin 300, Fin 300, Fin 300, Fin 300],
                         [Fin 300, Fin 300, Fin 300, Fin 300]]"

definition frp_example :: data_dict where
  "frp_example =
    \<lparr> platform_name = ''Himawari-8'',
      pix_area = [[Fin 4, Fin 4]],
      MIR__BT = [[Fin 300, Fin 340]],
      mean_mir = [[Fin 310, Fin 300]],
      fire_dets = [[Fin 1, Fin 0]],
      frp_est = [] \<rparr>"

text \<open>
  A scene of 3 by 5 cells with one candidate, at row 1 and column 2, for the
  de-duplication of the night detector, with two grids of the VIS difference: in
  \<open>dedup_vid\<close> the left neighbour of the candidate is brighter than the candidate, in
  \<open>dedup_vid_peak\<close> the candidate is the brightest cell. The options are the defaults of
  \<open>run_basic_night_detection\<close>.
\<close>

definition dedup_dets :: "nat grid" where
  "dedup_dets = [[0, 0, 0, 0, 0],
                 [0, 0, 1, 0, 0],
                 [0, 0, 0, 0, 0]]"

definition dedup_vid :: "fl grid" where
  "dedup_vid = [[Fin 0, Fin 0, Fin 0, Fin 0, Fin 0],
                [Fin 0, Fin 9, Fin 5, Fin 0, Fin 0],
                [Fin 0, Fin 0, Fin 0, Fin 0, Fin 0]]"

definition dedup_vid_peak :: "fl grid" where
  "dedup_vid_peak = [[Fin 0, Fin 0, Fin 0, Fin 0, Fin 0],
                     [Fin 0, Fin 2, Fin 5, Fin 0, Fin 0],
                     [Fin 0, Fin 0, Fin 0, Fin 0, Fin 0]]"


text \<open>
  Scenes with an invalid cell: a MIR grid of 4 by 4 cells whose first cell is NaN, and
  two inputs of \<open>calc_frp\<close> of one cell, the first with a NaN background mean and the
  second with a NaN pixel area under a fire detection.
\<close>

definition frp_nan_example :: data_dict where
  "frp_nan_example =
    \<lparr> platform_name = ''Himawari-8'',
      pix_area = [[Fin 4]],
      MIR__BT = [[Fin 340]],
      mean_mir = [[NaN]],
      fire_dets = [[Fin 1]],
      frp_est = [] \<rparr>"

definition stage1_nan_example :: "fl grid" where
  "stage1_nan_example = [[NaN, Fin 300, Fin 300, Fin 300],
                         [Fin 300, Fin 300, Fin 300, Fin 300],
                         [Fin 300, Fin 300, Fin 300, Fin 300],
                         [Fin 300, Fin 300, Fin 300, Fin 300]]"

definition frp_nan_area_example :: data_dict where
  "frp_nan_area_example =
    \<lparr> platform_name = ''Himawari-8'',
      pix_area = [[NaN]],
      MIR__BT = [[Fin 340]],
      mean_mir = [[Fin 300]],
      fire_dets = [[Fin 1]],
      frp_est = [] \<rparr>"

section \<open>Facts about grids\<close>

lemma shape_gmap [simp]: "shape (gmap f a) = shape a"
  by (simp add: shape_def gmap_def)

lemma shape_gmap2 [simp]: "shape a = shape b \<Longrightarrow> shape (gmap2 f a b) = shape a"
proof (induction a arbitrary: b)
  case Nil
  then show ?case by (simp add: shape_def gmap2_def)
next
  case (Cons r a)
  then obtain s b' where b: "b = s # b'" by (cases b) (auto simp: shape_def)
  with Cons.prems have "length r = length s" "shape a = shape b'"
    by (auto simp: shape_def)
  with Cons.IH [of b'] b show ?case
    by (simp add: shape_def gmap2_def)
qed

lemma inb_shape: "inb a i j = (i < length (shape a) \<and> j < shape a ! i)"
  by (auto simp: inb_def shape_def)

lemma inb_cong: "shape a = shape b \<Longrightarrow> inb a i j = inb b i j"
  by (simp add: inb_shape)

lemma cell_gmap [simp]: "inb a i j \<Longrightarrow> cell (gmap f a) i j = f (cell a i j)"
  by (simp add: inb_def cell_def gmap_def)

lemma cell_gmap2 [simp]:
  assumes "shape a = shape b" and "inb a i j"
  shows "cell (gmap2 f a b) i j = f (cell a i j) (cell b i j)"
proof -
  from assms(1) have len: "length a = length b"
    by (metis length_map shape_def)
  from assms have i: "i < length a" and j: "j < length (a ! i)"
    by (auto simp: inb_def)
  from assms(1) i len have "length (a ! i) = length (b ! i)"
    by (metis nth_map shape_def)
  with i j len show ?thesis
    by (simp add: cell_def gmap2_def)
qed

lemma inb_gmap [simp]: "inb (gmap f a) i j = inb a i j"
  by (simp add: inb_shape)

lemma inb_gmap2 [simp]: "shape a = shape b \<Longrightarrow> inb (gmap2 f a b) i j = inb a i j"
  by (simp add: inb_shape)

section \<open>The kernels are the stencil divided by its sum\<close>

lemma make_kern_3: "make_kern 3 = Inr (stencil_by_sum 3)"
  by (simp add: make_kern_def stencil_by_sum_def stencil_def gmap_def np_sum_def upt_conv_Cons)

lemma make_kern_5: "make_kern 5 = Inr (stencil_by_sum 5)"
  by (simp add: make_kern_def stencil_by_sum_def stencil_def gmap_def np_sum_def upt_conv_Cons)

lemma make_kern_7: "make_kern 7 = Inr (stencil_by_sum 7)"
  by (simp add: make_kern_def stencil_by_sum_def stencil_def gmap_def np_sum_def upt_conv_Cons)

lemma make_kern_9: "make_kern 9 = Inr (stencil_by_sum 9)"
  by (simp add: make_kern_def stencil_by_sum_def stencil_def gmap_def np_sum_def upt_conv_Cons)

lemma make_kern_11: "make_kern 11 = Inr (stencil_by_sum 11)"
  by (simp add: make_kern_def stencil_by_sum_def stencil_def gmap_def np_sum_def upt_conv_Cons)

lemma stencil_sums:
  "np_sum (stencil 3) = 1" "np_sum (stencil 5) = 1" "np_sum (stencil 7) = 1"
  "np_sum (stencil 9) = 1" "np_sum (stencil 11) = 1"
  by (simp_all add: stencil_def np_sum_def upt_conv_Cons)

lemma gmap_ident: "gmap (\<lambda>x. x) a = a"
  by (simp add: gmap_def)

text \<open>
  Claim C3, as the code has it. For every supported size \<open>n\<close> of 3, 5, 7, 9 and 11,
  \<open>_make_kern\<close> returns the stencil with \<open>n\<^sup>2\<close> at the centre and \<open>-1\<close> in every other cell
  divided by the sum of its weights. That sum is 1, so the kernel is the stencil itself
  and its cells add up to exactly 1.
\<close>

theorem make_kern_stencil:
  assumes "n \<in> {3, 5, 7, 9, 11}"
  shows "make_kern n = Inr (stencil_by_sum n) \<and> np_sum (stencil n) = 1 \<and>
         stencil_by_sum n = stencil n \<and> np_sum (stencil_by_sum n) = 1"
proof -
  from assms have k: "make_kern n = Inr (stencil_by_sum n)"
    using make_kern_3 make_kern_5 make_kern_7 make_kern_9 make_kern_11 by auto
  from assms have s: "np_sum (stencil n) = 1"
    using stencil_sums by auto
  then have e: "stencil_by_sum n = stencil n"
    by (simp add: stencil_by_sum_def gmap_ident)
  from k s e show ?thesis by simp
qed

theorem make_kern_stencil_witness:
  "(5::nat) \<in> {3, 5, 7, 9, 11} \<and> make_kern 5 = Inr (stencil_by_sum 5) \<and>
   np_sum (stencil 5) = 1 \<and> stencil_by_sum 5 = stencil 5 \<and> np_sum (stencil_by_sum 5) = 1"
proof -
  have h: "(5::nat) \<in> {3, 5, 7, 9, 11}" by simp
  from make_kern_stencil [OF h] h show ?thesis by blast
qed

text \<open>
  The 3 by 3 kernel is not the stencil divided by the sum of the absolute values of its
  weights (that sum is 17): the centre of the kernel is 9, not 9/17.
\<close>

theorem make_kern_abs_sum_counterexample:
  "make_kern 3 \<noteq> Inr (stencil_by_abs_sum 3)"
  by (simp add: make_kern_def stencil_by_abs_sum_def stencil_def gmap_def np_sum_def upt_conv_Cons)

section \<open>The thresholds never fall below their limits\<close>

lemma fl_lt_floor: "\<not> fl_lt (if fl_lt t (Fin l) then Fin l else t) (Fin l)"
  by (cases t) auto

text \<open>
  Claim C4. At every cell with a finite solar zenith angle \<open>s\<close> the MIR threshold is
  \<open>max mir_limit (mir_bt + mir_sza_adj * s)\<close> and the BTD threshold is
  \<open>max btd_limit (btd_bt + btd_sza_adj * s)\<close>; so a threshold is the limit exactly where the
  linear term is below it. At every cell whatever, also one whose angle is not finite,
  neither threshold is below its limit.
\<close>

theorem set_initial_thresholds_max:
  assumes "inb sza i j"
  shows "(\<forall>s. cell sza i j = Fin s \<longrightarrow>
            cell (fst (set_initial_thresholds sza mb ma ml bb ba bl)) i j
              = Fin (max ml (mb + ma * s)) \<and>
            cell (snd (set_initial_thresholds sza mb ma ml bb ba bl)) i j
              = Fin (max bl (bb + ba * s)))
       \<and> \<not> fl_lt (cell (fst (set_initial_thresholds sza mb ma ml bb ba bl)) i j) (Fin ml)
       \<and> \<not> fl_lt (cell (snd (set_initial_thresholds sza mb ma ml bb ba bl)) i j) (Fin bl)"
  using assms by (auto simp: set_initial_thresholds_def Let_def fl_lt_floor max_def)

theorem set_initial_thresholds_max_witness:
  "inb [[Fin 10, Fin 120]] 0 1 \<and>
   cell (fst (set_initial_thresholds [[Fin 10, Fin 120]] 310.5 (- 0.3) 280 1.75 (- 0.0049) 1)) 0 1
     = Fin 280 \<and>
   cell (snd (set_initial_thresholds [[Fin 10, Fin 120]] 310.5 (- 0.3) 280 1.75 (- 0.0049) 1)) 0 1
     = Fin 1.162"
proof -
  have h: "inb [[Fin 10, Fin 120]] 0 1" by (simp add: inb_def)
  have c: "cell [[Fin 10, Fin 120]] 0 1 = Fin 120" by (simp add: cell_def)
  from set_initial_thresholds_max [OF h, of "310.5" "- 0.3" 280 "1.75" "- 0.0049" 1] c h
  show ?thesis by simp
qed

section \<open>The FRP estimate and its gate\<close>

lemma fl_le_zero_not_gt: "fl_le m (Fin 0) \<Longrightarrow> \<not> fl_gt m (Fin 0)"
  by (cases m) (auto simp: fl_gt_def)

lemma calc_frp_cell:
  assumes "rad_to_bt_dict c (platform_name d) = Some a_val"
    and "shape (pix_area d) = shape (MIR__BT d)"
    and "shape (MIR__BT d) = shape (mean_mir d)"
    and "shape (mean_mir d) = shape (fire_dets d)"
    and "inb (pix_area d) i j"
  shows "\<exists>d'. calc_frp c d = Inr d' \<and>
           cell (frp_est d') i j =
             (if fl_gt (cell (fire_dets d) i j) (Fin 0) \<and> fl_gt (cell (mean_mir d) i j) (Fin 0)
              then fl_mul (fl_div (fl_mul (cell (pix_area d) i j) (Fin (sigma c))) (Fin a_val))
                          (fl_sub (cell (MIR__BT d) i j) (cell (mean_mir d) i j))
              else Fin 0)"
proof -
  from assms have "inb (MIR__BT d) i j" "inb (mean_mir d) i j" "inb (fire_dets d) i j"
    by (simp_all add: inb_shape)
  with assms show ?thesis
    by (simp add: calc_frp_def Let_def)
qed

lemma frp_example_facts:
  "rad_to_bt_dict consts_example (platform_name frp_example) = Some (3 / 10 ^ 9)"
  "shape (pix_area frp_example) = shape (MIR__BT frp_example)"
  "shape (MIR__BT frp_example) = shape (mean_mir frp_example)"
  "shape (mean_mir frp_example) = shape (fire_dets frp_example)"
  "inb (pix_area frp_example) 0 0" "inb (pix_area frp_example) 0 1"
  by (simp_all add: consts_example_def frp_example_def shape_def inb_def)

text \<open>
  Claim C5. With a sensor constant for the platform and grids of one shape, the FRP
  estimate of a cell is the pixel area times the Stefan-Boltzmann constant, divided by
  the sensor constant, times the excess of the MIR brightness temperature over the
  background mean, where the fire mask and the background mean are both positive, and
  it is 0 everywhere else: in particular where the fire mask is 0 and where the
  background mean is at most 0.
\<close>

theorem calc_frp_gate:
  assumes "rad_to_bt_dict c (platform_name d) = Some a_val"
    and "shape (pix_area d) = shape (MIR__BT d)"
    and "shape (MIR__BT d) = shape (mean_mir d)"
    and "shape (mean_mir d) = shape (fire_dets d)"
    and "inb (pix_area d) i j"
  shows "\<exists>d'. calc_frp c d = Inr d' \<and>
           cell (frp_est d') i j =
             (if fl_gt (cell (fire_dets d) i j) (Fin 0) \<and> fl_gt (cell (mean_mir d) i j) (Fin 0)
              then fl_mul (fl_div (fl_mul (cell (pix_area d) i j) (Fin (sigma c))) (Fin a_val))
                          (fl_sub (cell (MIR__BT d) i j) (cell (mean_mir d) i j))
              else Fin 0) \<and>
           (\<forall>a t m. cell (pix_area d) i j = Fin a \<and> cell (MIR__BT d) i j = Fin t \<and>
                    cell (mean_mir d) i j = Fin m \<and> 0 < m \<and> a_val \<noteq> 0 \<and>
                    fl_gt (cell (fire_dets d) i j) (Fin 0)
              \<longrightarrow> cell (frp_est d') i j = Fin (a * sigma c / a_val * (t - m))) \<and>
           (cell (fire_dets d) i j = Fin 0 \<or> fl_le (cell (mean_mir d) i j) (Fin 0)
              \<longrightarrow> cell (frp_est d') i j = Fin 0)"
proof -
  from calc_frp_cell [OF assms] obtain d' where
    d': "calc_frp c d = Inr d'" and
    v: "cell (frp_est d') i j =
             (if fl_gt (cell (fire_dets d) i j) (Fin 0) \<and> fl_gt (cell (mean_mir d) i j) (Fin 0)
              then fl_mul (fl_div (fl_mul (cell (pix_area d) i j) (Fin (sigma c))) (Fin a_val))
                          (fl_sub (cell (MIR__BT d) i j) (cell (mean_mir d) i j))
              else Fin 0)" by blast
  have z: "cell (fire_dets d) i j = Fin 0 \<or> fl_le (cell (mean_mir d) i j) (Fin 0)
              \<longrightarrow> cell (frp_est d') i j = Fin 0"
    using v fl_le_zero_not_gt by (auto simp: fl_gt_def)
  have f: "\<forall>a t m. cell (pix_area d) i j = Fin a \<and> cell (MIR__BT d) i j = Fin t \<and>
                    cell (mean_mir d) i j = Fin m \<and> 0 < m \<and> a_val \<noteq> 0 \<and>
                    fl_gt (cell (fire_dets d) i j) (Fin 0)
              \<longrightarrow> cell (frp_est d') i j = Fin (a * sigma c / a_val * (t - m))"
    using v by (auto simp: fl_gt_def fl_sub_def)
  from d' v z f show ?thesis by blast
qed

theorem calc_frp_gate_witness:
  "\<exists>d'. calc_frp consts_example frp_example = Inr d' \<and>
     cell (frp_est d') 0 1 = Fin 0 \<and> cell (fire_dets frp_example) 0 1 = Fin 0"
proof -
  from calc_frp_gate [OF frp_example_facts(1-4) frp_example_facts(6)]
  obtain d' where "calc_frp consts_example frp_example = Inr d'"
    and "cell (fire_dets frp_example) 0 1 = Fin 0 \<or> fl_le (cell (mean_mir frp_example) 0 1) (Fin 0)
              \<longrightarrow> cell (frp_est d') 0 1 = Fin 0"
    by blast
  moreover have "cell (fire_dets frp_example) 0 1 = Fin 0"
    by (simp add: frp_example_def cell_def)
  ultimately show ?thesis by blast
qed

text \<open>
  Claim C10. The estimate is not clamped at zero. For all constants with a positive
  Stefan-Boltzmann constant and a positive sensor constant, at every cell with a
  positive pixel area where the fire mask and the background mean are positive and
  the MIR brightness temperature is below the background mean, the FRP estimate that
  \<open>calc_frp\<close> stores is the pixel area times the Stefan-Boltzmann constant, divided by
  the sensor constant, times the negative temperature excess, and so it is negative.
  The example scene has such a cell, with the estimate -756.
\<close>

theorem calc_frp_negative:
  assumes "rad_to_bt_dict c (platform_name d) = Some a_val"
    and "shape (pix_area d) = shape (MIR__BT d)"
    and "shape (MIR__BT d) = shape (mean_mir d)"
    and "shape (mean_mir d) = shape (fire_dets d)"
    and "inb (pix_area d) i j"
    and "0 < sigma c" and "0 < a_val"
    and "cell (pix_area d) i j = Fin a" and "0 < a"
    and "cell (MIR__BT d) i j = Fin t" and "cell (mean_mir d) i j = Fin m"
    and "0 < m" and "t < m"
    and "fl_gt (cell (fire_dets d) i j) (Fin 0)"
  shows "\<exists>d'. calc_frp c d = Inr d' \<and>
           cell (frp_est d') i j = Fin (a * sigma c / a_val * (t - m)) \<and>
           a * sigma c / a_val * (t - m) < 0"
proof -
  from calc_frp_cell [OF assms(1-5)] obtain d' where
    d': "calc_frp c d = Inr d'" and
    v: "cell (frp_est d') i j =
             (if fl_gt (cell (fire_dets d) i j) (Fin 0) \<and> fl_gt (cell (mean_mir d) i j) (Fin 0)
              then fl_mul (fl_div (fl_mul (cell (pix_area d) i j) (Fin (sigma c))) (Fin a_val))
                          (fl_sub (cell (MIR__BT d) i j) (cell (mean_mir d) i j))
              else Fin 0)" by blast
  from v assms have val: "cell (frp_est d') i j = Fin (a * sigma c / a_val * (t - m))"
    by (simp add: fl_gt_def fl_sub_def)
  from assms have "0 < a * sigma c / a_val" by simp
  moreover from assms have "t - m < 0" by simp
  ultimately have "a * sigma c / a_val * (t - m) < 0" by (rule mult_pos_neg)
  with d' val show ?thesis by blast
qed

theorem calc_frp_negative_witness:
  "fl_gt (cell (fire_dets frp_example) 0 0) (Fin 0) \<and>
   fl_gt (cell (mean_mir frp_example) 0 0) (Fin 0) \<and>
   fl_lt (cell (MIR__BT frp_example) 0 0) (cell (mean_mir frp_example) 0 0) \<and>
   (\<exists>d'. calc_frp consts_example frp_example = Inr d' \<and> cell (frp_est d') 0 0 = Fin (- 756))"
proof -
  have cells: "cell (pix_area frp_example) 0 0 = Fin 4" "cell (MIR__BT frp_example) 0 0 = Fin 300"
    "cell (mean_mir frp_example) 0 0 = Fin 310" "cell (fire_dets frp_example) 0 0 = Fin 1"
    by (simp_all add: frp_example_def cell_def)
  have pos: "0 < sigma consts_example" "(0::real) < 3 / 10 ^ 9" "(0::real) < 4" "(0::real) < 310"
    "(300::real) < 310"
    by (simp_all add: consts_example_def)
  have f: "fl_gt (cell (fire_dets frp_example) 0 0) (Fin 0)"
    by (simp add: cells fl_gt_def)
  from calc_frp_negative [OF frp_example_facts(1-5) pos(1,2) cells(1) pos(3) cells(2,3) pos(4,5) f]
  obtain d' where "calc_frp consts_example frp_example = Inr d'"
    and "cell (frp_est d') 0 0 = Fin (4 * sigma consts_example / (3 / 10 ^ 9) * (300 - 310))"
    by blast
  then have "\<exists>d'. calc_frp consts_example frp_example = Inr d' \<and>
      cell (frp_est d') 0 0 = Fin (- 756)"
    by (auto simp: consts_example_def)
  with cells show ?thesis by (simp add: fl_gt_def)
qed

section \<open>The confidence is a geometric mean in the unit interval\<close>

lemma shape_full_like [simp]: "shape (full_like a v) = shape a"
  by (simp add: full_like_def)

lemma cell_full_like [simp]: "inb a i j \<Longrightarrow> cell (full_like a v) i j = v"
  by (simp add: full_like_def)

lemma inb_full_like [simp]: "inb (full_like a v) i j = inb a i j"
  by (simp add: full_like_def)

lemma shape_comp_stat:
  "shape x = shape a \<Longrightarrow> shape a = shape b \<Longrightarrow> shape (comp_stat x a b) = shape x"
  by (simp add: comp_stat_def Let_def)

lemma cell_comp_stat:
  "shape x = shape a \<Longrightarrow> shape a = shape b \<Longrightarrow> inb x i j \<Longrightarrow>
   cell (comp_stat x a b) i j = comp_stat_px (cell x i j) (cell a i j) (cell b i j)"
  by (simp add: comp_stat_def comp_stat_px_def Let_def inb_shape)

lemma cell_do_stage5:
  assumes sh: "shape mea_btd = shape btd" "shape std_btd = shape btd" "shape bt_mir = shape btd"
      "shape mea_mir = shape btd" "shape std_mir = shape btd" "shape sza = shape btd"
      "shape nwin = shape btd" "shape ncld = shape btd" "shape nwat = shape btd"
    and i: "inb btd i j"
  shows "cell (do_stage5 btd mea_btd std_btd bt_mir mea_mir std_mir sza nwin ncld nwat) i j =
         do_stage5_px (cell btd i j) (cell mea_btd i j) (cell std_btd i j) (cell bt_mir i j)
           (cell mea_mir i j) (cell std_mir i j) (cell sza i j) (cell nwin i j) (cell ncld i j)
           (cell nwat i j)"
proof -
  from sh i have inbs: "inb mea_btd i j" "inb std_btd i j" "inb bt_mir i j" "inb mea_mir i j"
      "inb std_mir i j" "inb sza i j" "inb nwin i j" "inb ncld i j" "inb nwat i j"
    by (simp_all add: inb_shape)
  show ?thesis
    using sh i inbs
    by (simp add: do_stage5_def do_stage5_px_def sza_clip_def Let_def
          cell_comp_stat shape_comp_stat inb_shape)
qed

lemma ramp_bounds: "0 \<le> ramp x a b \<and> ramp x a b \<le> 1"
  by (simp add: ramp_def)

lemma comp_stat_px_fin:
  assumes "a < b"
  shows "comp_stat_px (Fin x) (Fin a) (Fin b) = Fin (ramp x a b)"
proof -
  from assms have ba: "0 < b - a" by simp
  consider "x < a" | "a \<le> x \<and> x \<le> b" | "b < x" by linarith
  then show ?thesis
  proof cases
    case 1
    then have "(x - a) / (b - a) < 0" using ba by (simp add: divide_neg_pos)
    with 1 assms show ?thesis
      by (simp add: comp_stat_px_def fl_sub_def fl_gt_def ramp_def Let_def)
  next
    case 2
    then have "0 \<le> (x - a) / (b - a)" "(x - a) / (b - a) \<le> 1" using ba by simp_all
    with 2 assms show ?thesis
      by (simp add: comp_stat_px_def fl_sub_def fl_gt_def ramp_def Let_def)
  next
    case 3
    then have "1 < (x - a) / (b - a)" using ba by simp
    with 3 assms show ?thesis
      by (simp add: comp_stat_px_def fl_sub_def fl_gt_def ramp_def Let_def)
  qed
qed

lemma sza_clip_fin: "sza_clip (Fin s) = Fin (min s 60)"
  by (simp add: sza_clip_def fl_gt_def min_def)

lemma qramp_bounds: "0 \<le> qramp n d a b \<and> qramp n d a b \<le> 1"
  using ramp_bounds by (simp add: qramp_def)

lemma comp_stat_px_quotient:
  assumes "a < b" and "d \<noteq> 0 \<or> n \<noteq> 0"
  shows "comp_stat_px (fl_div (Fin n) (Fin d)) (Fin a) (Fin b) = Fin (qramp n d a b)"
proof (cases "d = 0")
  case False
  with comp_stat_px_fin [OF assms(1)] show ?thesis by (simp add: qramp_def)
next
  case True
  with assms(2) have "n \<noteq> 0" by simp
  with True assms(1) show ?thesis
    by (auto simp: comp_stat_px_def qramp_def inf_signed_def fl_sub_def fl_gt_def Let_def
        not_less)
qed

lemma do_stage5_px_fin:
  assumes "std_mir \<noteq> 0 \<or> bt_mir \<noteq> mea_mir" and "std_btd \<noteq> 0 \<or> btd \<noteq> mea_btd"
    and "nwin \<noteq> 0 \<or> ncld \<noteq> 0 \<and> nwat \<noteq> 0"
  shows "do_stage5_px (Fin btd) (Fin mea_btd) (Fin std_btd) (Fin bt_mir) (Fin mea_mir)
           (Fin std_mir) (Fin sza) (Fin nwin) (Fin ncld) (Fin nwat) =
         Fin (prod_list (stage5_parts btd mea_btd std_btd bt_mir mea_mir std_mir sza nwin ncld nwat)
                powr (1 / 5))"
proof -
  let ?s = "min sza 60"
  have s60: "?s \<le> 60" by simp
  have o1: "287 + (280 - 287) / 60 * ?s < 327 + (310 - 327) / 60 * ?s"
    using s60 by simp
  have o3: "2 + (1.5 - 2) / 60 * ?s < 6 + (5 - 6) / 60 * ?s"
    using s60 by simp
  have c1: "comp_stat_px (Fin bt_mir) (fl_add (Fin 287) (fl_mul (Fin ((280 - 287) / 60)) (Fin ?s)))
              (fl_add (Fin 327) (fl_mul (Fin ((310 - 327) / 60)) (Fin ?s)))
            = Fin (ramp bt_mir (287 + (280 - 287) / 60 * ?s) (327 + (310 - 327) / 60 * ?s))"
    using comp_stat_px_fin [OF o1] by simp
  have q2: "std_mir \<noteq> 0 \<or> bt_mir - mea_mir \<noteq> 0" using assms(1) by simp
  have c2: "comp_stat_px (fl_div (fl_sub (Fin bt_mir) (Fin mea_mir)) (Fin std_mir)) (Fin 0.9) (Fin 6)
            = Fin (qramp (bt_mir - mea_mir) std_mir 0.9 6)"
    using comp_stat_px_quotient [OF _ q2, of "0.9" 6] by (simp add: fl_sub_def)
  have q3: "std_btd \<noteq> 0 \<or> btd - mea_btd \<noteq> 0" using assms(2) by simp
  have c3: "comp_stat_px (fl_div (fl_sub (Fin btd) (Fin mea_btd)) (Fin std_btd))
              (fl_add (Fin 2) (fl_mul (Fin ((1.5 - 2) / 60)) (Fin ?s)))
              (fl_add (Fin 6) (fl_mul (Fin ((5 - 6) / 60)) (Fin ?s)))
            = Fin (qramp (btd - mea_btd) std_btd (2 + (1.5 - 2) / 60 * ?s) (6 + (5 - 6) / 60 * ?s))"
    using comp_stat_px_quotient [OF o3 q3] by (simp add: fl_sub_def)
  have q4: "nwin / 2 \<noteq> 0 \<or> ncld \<noteq> 0" "nwin / 2 \<noteq> 0 \<or> nwat \<noteq> 0" using assms(3) by auto
  have h: "fl_div (Fin nwin) (Fin 2) = Fin (nwin / 2)" by simp
  have c4: "fl_sub (Fin 1) (comp_stat_px (fl_div (Fin ncld) (fl_div (Fin nwin) (Fin 2))) (Fin 0) (Fin 1))
            = Fin (1 - qramp ncld (nwin / 2) 0 1)"
    unfolding h using comp_stat_px_quotient [OF _ q4(1), of 0 1] by (simp add: fl_sub_def)
  have c5: "fl_sub (Fin 1) (comp_stat_px (fl_div (Fin nwat) (fl_div (Fin nwin) (Fin 2))) (Fin 0) (Fin 1))
            = Fin (1 - qramp nwat (nwin / 2) 0 1)"
    unfolding h using comp_stat_px_quotient [OF _ q4(2), of 0 1] by (simp add: fl_sub_def)
  let ?c1 = "ramp bt_mir (287 + (280 - 287) / 60 * ?s) (327 + (310 - 327) / 60 * ?s)"
  let ?c2 = "qramp (bt_mir - mea_mir) std_mir 0.9 6"
  let ?c3 = "qramp (btd - mea_btd) std_btd (2 + (1.5 - 2) / 60 * ?s) (6 + (5 - 6) / 60 * ?s)"
  let ?c4 = "1 - qramp ncld (nwin / 2) 0 1"
  let ?c5 = "1 - qramp nwat (nwin / 2) 0 1"
  have nn: "0 \<le> ?c1 * ?c2 * ?c3 * ?c4 * ?c5"
    using ramp_bounds qramp_bounds by (intro mult_nonneg_nonneg) simp_all
  have "do_stage5_px (Fin btd) (Fin mea_btd) (Fin std_btd) (Fin bt_mir) (Fin mea_mir)
           (Fin std_mir) (Fin sza) (Fin nwin) (Fin ncld) (Fin nwat)
        = np_power (Fin (?c1 * ?c2 * ?c3 * ?c4 * ?c5)) (1 / 5)"
    unfolding do_stage5_px_def Let_def sza_clip_fin c1 c2 c3 c4 c5 by simp
  also have "\<dots> = Fin ((?c1 * ?c2 * ?c3 * ?c4 * ?c5) powr (1 / 5))"
    using nn by simp
  also have "?c1 * ?c2 * ?c3 * ?c4 * ?c5
      = prod_list (stage5_parts btd mea_btd std_btd bt_mir mea_mir std_mir sza nwin ncld nwat)"
    by (simp add: stage5_parts_def Let_def mult.assoc)
  finally show ?thesis .
qed

lemma fl_mul_NaN [simp]: "fl_mul x NaN = NaN"
  by (cases x) simp_all

lemma fl_lt_NaN_right [simp]: "fl_lt b NaN = False"
  by (cases b) simp_all

lemma comp_stat_px_NaN [simp]: "comp_stat_px NaN a b = NaN"
  by (simp add: comp_stat_px_def fl_sub_def fl_gt_def Let_def)

lemma do_stage5_px_no_window:
  assumes "ncld = Fin 0 \<or> nwat = Fin 0"
  shows "do_stage5_px btd mea_btd std_btd bt_mir mea_mir std_mir sza (Fin 0) ncld nwat = NaN"
  using assms
  by (auto simp: do_stage5_px_def Let_def inf_signed_def fl_sub_def)

lemma do_stage5_px_no_spread:
  "do_stage5_px btd mea_btd std_btd (Fin t) (Fin t) (Fin 0) sza nwin ncld nwat = NaN"
  "do_stage5_px (Fin t) (Fin t) (Fin 0) bt_mir mea_mir std_mir sza nwin ncld nwat = NaN"
  by (simp_all add: do_stage5_px_def Let_def inf_signed_def fl_sub_def)

lemma stage5_parts_unit:
  "\<forall>c \<in> set (stage5_parts btd mea_btd std_btd bt_mir mea_mir std_mir sza nwin ncld nwat).
     0 \<le> c \<and> c \<le> 1"
  using ramp_bounds qramp_bounds by (simp add: stage5_parts_def Let_def)

lemma prod_list_unit:
  "\<forall>c \<in> set ps. 0 \<le> c \<and> c \<le> (1::real) \<Longrightarrow> 0 \<le> prod_list ps \<and> prod_list ps \<le> 1"
proof (induction ps)
  case Nil
  then show ?case by simp
next
  case (Cons c ps)
  then have "0 \<le> c" "c \<le> 1" "0 \<le> prod_list ps" "prod_list ps \<le> 1" by simp_all
  then show ?case by (simp add: mult_le_one)
qed

lemma root5_unit:
  assumes "0 \<le> p" "p \<le> (1::real)"
  shows "0 \<le> p powr (1 / 5) \<and> p powr (1 / 5) \<le> 1"
proof -
  have "p powr (1 / 5) \<le> 1 powr (1 / 5)"
    using assms by (intro powr_mono2) simp_all
  then show ?thesis by simp
qed

lemma prod_list_zero: "(0::real) \<in> set ps \<Longrightarrow> prod_list ps = 0"
  by (induction ps) auto

text \<open>
  Claim C2, as the code has it. At a cell where the ten inputs are finite and no
  quotient is 0/0 (a standard deviation is not zero or the value differs from its mean;
  the window count is not zero or the cloud and water counts are both not zero), the
  confidence is the geometric mean of five components: the clipped ramps of the MIR
  brightness temperature and of the two z-scores, and one minus the clipped ramps of
  the cloud and water fractions, a quotient by zero being an infinity with the ramp 1 or
  0. Each component lies between 0 and 1, so does the confidence, and the confidence
  is 0 when a component is 0. Where a quotient is 0/0 the confidence is NaN, not 0:
  where the window statistics are unavailable (a window count of 0, with a cloud or
  water count of 0), and where a standard deviation is 0 and the value is equal to its
  mean.
\<close>

theorem do_stage5_confidence:
  assumes "shape mea_btd = shape btd" "shape std_btd = shape btd" "shape bt_mir = shape btd"
      "shape mea_mir = shape btd" "shape std_mir = shape btd" "shape sza = shape btd"
      "shape nwin = shape btd" "shape ncld = shape btd" "shape nwat = shape btd"
    and "inb btd i j"
  shows "(\<forall>rb mb sb tm mm sm s w cl wa.
            cell btd i j = Fin rb \<and> cell mea_btd i j = Fin mb \<and> cell std_btd i j = Fin sb \<and>
            cell bt_mir i j = Fin tm \<and> cell mea_mir i j = Fin mm \<and> cell std_mir i j = Fin sm \<and>
            cell sza i j = Fin s \<and> cell nwin i j = Fin w \<and> cell ncld i j = Fin cl \<and>
            cell nwat i j = Fin wa \<and>
            (sm \<noteq> 0 \<or> tm \<noteq> mm) \<and> (sb \<noteq> 0 \<or> rb \<noteq> mb) \<and> (w \<noteq> 0 \<or> cl \<noteq> 0 \<and> wa \<noteq> 0)
          \<longrightarrow> (let ps = stage5_parts rb mb sb tm mm sm s w cl wa;
                    conf = prod_list ps powr (1 / 5)
                in cell (do_stage5 btd mea_btd std_btd bt_mir mea_mir std_mir sza nwin ncld nwat) i j
                     = Fin conf \<and>
                   (\<forall>c \<in> set ps. 0 \<le> c \<and> c \<le> 1) \<and> 0 \<le> conf \<and> conf \<le> 1 \<and>
                   (0 \<in> set ps \<longrightarrow> conf = 0)))
       \<and> (cell nwin i j = Fin 0 \<and> (cell ncld i j = Fin 0 \<or> cell nwat i j = Fin 0) \<or>
          cell std_mir i j = Fin 0 \<and> isfinite (cell bt_mir i j) \<and>
            cell bt_mir i j = cell mea_mir i j \<or>
          cell std_btd i j = Fin 0 \<and> isfinite (cell btd i j) \<and> cell btd i j = cell mea_btd i j
          \<longrightarrow> cell (do_stage5 btd mea_btd std_btd bt_mir mea_mir std_mir sza nwin ncld nwat) i j
                = NaN)"
proof -
  note c = cell_do_stage5 [OF assms]
  have fin: "cell (do_stage5 btd mea_btd std_btd bt_mir mea_mir std_mir sza nwin ncld nwat) i j
        = Fin (prod_list (stage5_parts rb mb sb tm mm sm s w cl wa) powr (1 / 5))"
    if "cell btd i j = Fin rb" "cell mea_btd i j = Fin mb" "cell std_btd i j = Fin sb"
       "cell bt_mir i j = Fin tm" "cell mea_mir i j = Fin mm" "cell std_mir i j = Fin sm"
       "cell sza i j = Fin s" "cell nwin i j = Fin w" "cell ncld i j = Fin cl"
       "cell nwat i j = Fin wa" "sm \<noteq> 0 \<or> tm \<noteq> mm" "sb \<noteq> 0 \<or> rb \<noteq> mb"
       "w \<noteq> 0 \<or> cl \<noteq> 0 \<and> wa \<noteq> 0"
    for rb mb sb tm mm sm s w cl wa
    using that(1-10) c do_stage5_px_fin [OF that(11-13), of s] by simp
  have bnd: "0 \<le> prod_list (stage5_parts rb mb sb tm mm sm s w cl wa) powr (1 / 5) \<and>
             prod_list (stage5_parts rb mb sb tm mm sm s w cl wa) powr (1 / 5) \<le> 1"
    for rb mb sb tm mm sm s w cl wa
    using prod_list_unit [OF stage5_parts_unit] root5_unit by blast
  have zero: "0 \<in> set (stage5_parts rb mb sb tm mm sm s w cl wa) \<longrightarrow>
              prod_list (stage5_parts rb mb sb tm mm sm s w cl wa) powr (1 / 5) = 0"
    for rb mb sb tm mm sm s w cl wa
    by (simp add: prod_list_zero)
  have nowin: "cell (do_stage5 btd mea_btd std_btd bt_mir mea_mir std_mir sza nwin ncld nwat) i j
                = NaN"
    if "cell nwin i j = Fin 0 \<and> (cell ncld i j = Fin 0 \<or> cell nwat i j = Fin 0) \<or>
          cell std_mir i j = Fin 0 \<and> isfinite (cell bt_mir i j) \<and>
            cell bt_mir i j = cell mea_mir i j \<or>
          cell std_btd i j = Fin 0 \<and> isfinite (cell btd i j) \<and> cell btd i j = cell mea_btd i j"
  proof -
    from that consider
      "cell nwin i j = Fin 0" "cell ncld i j = Fin 0 \<or> cell nwat i j = Fin 0"
      | t where "cell std_mir i j = Fin 0" "cell bt_mir i j = Fin t" "cell mea_mir i j = Fin t"
      | t where "cell std_btd i j = Fin 0" "cell btd i j = Fin t" "cell mea_btd i j = Fin t"
      by (cases "cell bt_mir i j"; cases "cell btd i j") auto
    then show ?thesis
    proof cases
      case 1
      with c do_stage5_px_no_window show ?thesis by simp
    next
      case 2
      with c do_stage5_px_no_spread(1) show ?thesis by simp
    next
      case 3
      with c do_stage5_px_no_spread(2) show ?thesis by simp
    qed
  qed
  show ?thesis
    unfolding Let_def
  proof (intro conjI allI impI)
    fix rb mb sb tm mm sm s w cl wa
    assume h: "cell btd i j = Fin rb \<and> cell mea_btd i j = Fin mb \<and> cell std_btd i j = Fin sb \<and>
            cell bt_mir i j = Fin tm \<and> cell mea_mir i j = Fin mm \<and> cell std_mir i j = Fin sm \<and>
            cell sza i j = Fin s \<and> cell nwin i j = Fin w \<and> cell ncld i j = Fin cl \<and>
            cell nwat i j = Fin wa \<and>
            (sm \<noteq> 0 \<or> tm \<noteq> mm) \<and> (sb \<noteq> 0 \<or> rb \<noteq> mb) \<and> (w \<noteq> 0 \<or> cl \<noteq> 0 \<and> wa \<noteq> 0)"
    then show "cell (do_stage5 btd mea_btd std_btd bt_mir mea_mir std_mir sza nwin ncld nwat) i j
        = Fin (prod_list (stage5_parts rb mb sb tm mm sm s w cl wa) powr (1 / 5))"
      using fin by blast
    show "\<forall>c\<in>set (stage5_parts rb mb sb tm mm sm s w cl wa). 0 \<le> c \<and> c \<le> 1"
      by (rule stage5_parts_unit)
    show "0 \<le> prod_list (stage5_parts rb mb sb tm mm sm s w cl wa) powr (1 / 5)"
      using bnd by blast
    show "prod_list (stage5_parts rb mb sb tm mm sm s w cl wa) powr (1 / 5) \<le> 1"
      using bnd by blast
    show "prod_list (stage5_parts rb mb sb tm mm sm s w cl wa) powr (1 / 5) = 0"
      if "0 \<in> set (stage5_parts rb mb sb tm mm sm s w cl wa)"
      using that zero by blast
  next
    assume "cell nwin i j = Fin 0 \<and> (cell ncld i j = Fin 0 \<or> cell nwat i j = Fin 0) \<or>
          cell std_mir i j = Fin 0 \<and> isfinite (cell bt_mir i j) \<and>
            cell bt_mir i j = cell mea_mir i j \<or>
          cell std_btd i j = Fin 0 \<and> isfinite (cell btd i j) \<and> cell btd i j = cell mea_btd i j"
    then show "cell (do_stage5 btd mea_btd std_btd bt_mir mea_mir std_mir sza nwin ncld nwat) i j
                = NaN"
      by (rule nowin)
  qed
qed

text \<open>
  The example scene has four cells in a row. Cell 0 is a hot pixel on a background with
  a spread; cell 1 has no window statistics; cell 2 is a hot pixel on a uniform
  background, with a standard deviation of 0; and cell 3 is a pixel equal to the mean of
  a uniform background.
\<close>

lemma stage5_example_parts:
  "stage5_parts 10 1 1 340 300 1 0 10 0 0 = [1, 1, 1, 1, 1]"
  "stage5_parts 10 1 1 340 300 0 0 10 0 0 = [1, 1, 1, 1, 1]"
  by (simp_all add: stage5_parts_def ramp_def qramp_def Let_def)

theorem do_stage5_confidence_witness:
  "inb [[Fin 10, Fin 10, Fin 10, Fin (10::real)]] 0 0 \<and>
   cell (do_stage5 [[Fin 10, Fin 10, Fin 10, Fin 10]] [[Fin 1, Fin 1, Fin 1, Fin 1]]
            [[Fin 1, Fin 1, Fin 1, Fin 1]] [[Fin 340, Fin 340, Fin 340, Fin 300]]
            [[Fin 300, Fin 300, Fin 300, Fin 300]] [[Fin 1, Fin 1, Fin 0, Fin 0]]
            [[Fin 0, Fin 0, Fin 0, Fin 0]] [[Fin 10, Fin 0, Fin 10, Fin 10]]
            [[Fin 0, Fin 0, Fin 0, Fin 0]] [[Fin 0, Fin 0, Fin 0, Fin 0]]) 0 0 = Fin 1 \<and>
   cell (do_stage5 [[Fin 10, Fin 10, Fin 10, Fin 10]] [[Fin 1, Fin 1, Fin 1, Fin 1]]
            [[Fin 1, Fin 1, Fin 1, Fin 1]] [[Fin 340, Fin 340, Fin 340, Fin 300]]
            [[Fin 300, Fin 300, Fin 300, Fin 300]] [[Fin 1, Fin 1, Fin 0, Fin 0]]
            [[Fin 0, Fin 0, Fin 0, Fin 0]] [[Fin 10, Fin 0, Fin 10, Fin 10]]
            [[Fin 0, Fin 0, Fin 0, Fin 0]] [[Fin 0, Fin 0, Fin 0, Fin 0]]) 0 1 = NaN \<and>
   cell (do_stage5 [[Fin 10, Fin 10, Fin 10, Fin 10]] [[Fin 1, Fin 1, Fin 1, Fin 1]]
            [[Fin 1, Fin 1, Fin 1, Fin 1]] [[Fin 340, Fin 340, Fin 340, Fin 300]]
            [[Fin 300, Fin 300, Fin 300, Fin 300]] [[Fin 1, Fin 1, Fin 0, Fin 0]]
            [[Fin 0, Fin 0, Fin 0, Fin 0]] [[Fin 10, Fin 0, Fin 10, Fin 10]]
            [[Fin 0, Fin 0, Fin 0, Fin 0]] [[Fin 0, Fin 0, Fin 0, Fin 0]]) 0 2 = Fin 1 \<and>
   cell (do_stage5 [[Fin 10, Fin 10, Fin 10, Fin 10]] [[Fin 1, Fin 1, Fin 1, Fin 1]]
            [[Fin 1, Fin 1, Fin 1, Fin 1]] [[Fin 340, Fin 340, Fin 340, Fin 300]]
            [[Fin 300, Fin 300, Fin 300, Fin 300]] [[Fin 1, Fin 1, Fin 0, Fin 0]]
            [[Fin 0, Fin 0, Fin 0, Fin 0]] [[Fin 10, Fin 0, Fin 10, Fin 10]]
            [[Fin 0, Fin 0, Fin 0, Fin 0]] [[Fin 0, Fin 0, Fin 0, Fin 0]]) 0 3 = NaN"
proof -
  have sh: "shape [[Fin 1, Fin 1, Fin 1, Fin 1]] = shape [[Fin 10, Fin 10, Fin 10, Fin 10]]"
    "shape [[Fin 340, Fin 340, Fin 340, Fin 300]] = shape [[Fin 10, Fin 10, Fin 10, Fin 10]]"
    "shape [[Fin 300, Fin 300, Fin 300, Fin 300]] = shape [[Fin 10, Fin 10, Fin 10, Fin 10]]"
    "shape [[Fin 1, Fin 1, Fin 0, Fin 0]] = shape [[Fin 10, Fin 10, Fin 10, Fin 10]]"
    "shape [[Fin 0, Fin 0, Fin 0, Fin 0]] = shape [[Fin 10, Fin 10, Fin 10, Fin 10]]"
    "shape [[Fin 10, Fin 0, Fin 10, Fin 10]] = shape [[Fin 10, Fin 10, Fin 10, Fin 10]]"
    by (simp_all add: shape_def)
  have i: "inb [[Fin 10, Fin 10, Fin 10, Fin 10]] 0 0" "inb [[Fin 10, Fin 10, Fin 10, Fin 10]] 0 1"
    "inb [[Fin 10, Fin 10, Fin 10, Fin 10]] 0 2" "inb [[Fin 10, Fin 10, Fin 10, Fin 10]] 0 3"
    by (simp_all add: inb_def)
  note t0 = do_stage5_confidence [OF sh(1) sh(1) sh(2) sh(3) sh(4) sh(5) sh(6) sh(5) sh(5) i(1)]
  note t1 = do_stage5_confidence [OF sh(1) sh(1) sh(2) sh(3) sh(4) sh(5) sh(6) sh(5) sh(5) i(2)]
  note t2 = do_stage5_confidence [OF sh(1) sh(1) sh(2) sh(3) sh(4) sh(5) sh(6) sh(5) sh(5) i(3)]
  note t3 = do_stage5_confidence [OF sh(1) sh(1) sh(2) sh(3) sh(4) sh(5) sh(6) sh(5) sh(5) i(4)]
  from t0 have "cell (do_stage5 [[Fin 10, Fin 10, Fin 10, Fin 10]] [[Fin 1, Fin 1, Fin 1, Fin 1]]
            [[Fin 1, Fin 1, Fin 1, Fin 1]] [[Fin 340, Fin 340, Fin 340, Fin 300]]
            [[Fin 300, Fin 300, Fin 300, Fin 300]] [[Fin 1, Fin 1, Fin 0, Fin 0]]
            [[Fin 0, Fin 0, Fin 0, Fin 0]] [[Fin 10, Fin 0, Fin 10, Fin 10]]
            [[Fin 0, Fin 0, Fin 0, Fin 0]] [[Fin 0, Fin 0, Fin 0, Fin 0]]) 0 0 = Fin (prod_list (stage5_parts 10 1 1 340 300 1 0 10 0 0) powr (1 / 5))"
    by (simp add: cell_def Let_def)
  then have a: "cell (do_stage5 [[Fin 10, Fin 10, Fin 10, Fin 10]] [[Fin 1, Fin 1, Fin 1, Fin 1]]
            [[Fin 1, Fin 1, Fin 1, Fin 1]] [[Fin 340, Fin 340, Fin 340, Fin 300]]
            [[Fin 300, Fin 300, Fin 300, Fin 300]] [[Fin 1, Fin 1, Fin 0, Fin 0]]
            [[Fin 0, Fin 0, Fin 0, Fin 0]] [[Fin 10, Fin 0, Fin 10, Fin 10]]
            [[Fin 0, Fin 0, Fin 0, Fin 0]] [[Fin 0, Fin 0, Fin 0, Fin 0]]) 0 0 = Fin 1"
    by (simp add: stage5_example_parts)
  from t1 have b: "cell (do_stage5 [[Fin 10, Fin 10, Fin 10, Fin 10]] [[Fin 1, Fin 1, Fin 1, Fin 1]]
            [[Fin 1, Fin 1, Fin 1, Fin 1]] [[Fin 340, Fin 340, Fin 340, Fin 300]]
            [[Fin 300, Fin 300, Fin 300, Fin 300]] [[Fin 1, Fin 1, Fin 0, Fin 0]]
            [[Fin 0, Fin 0, Fin 0, Fin 0]] [[Fin 10, Fin 0, Fin 10, Fin 10]]
            [[Fin 0, Fin 0, Fin 0, Fin 0]] [[Fin 0, Fin 0, Fin 0, Fin 0]]) 0 1 = NaN"
    by (simp add: cell_def)
  from t2 have "cell (do_stage5 [[Fin 10, Fin 10, Fin 10, Fin 10]] [[Fin 1, Fin 1, Fin 1, Fin 1]]
            [[Fin 1, Fin 1, Fin 1, Fin 1]] [[Fin 340, Fin 340, Fin 340, Fin 300]]
            [[Fin 300, Fin 300, Fin 300, Fin 300]] [[Fin 1, Fin 1, Fin 0, Fin 0]]
            [[Fin 0, Fin 0, Fin 0, Fin 0]] [[Fin 10, Fin 0, Fin 10, Fin 10]]
            [[Fin 0, Fin 0, Fin 0, Fin 0]] [[Fin 0, Fin 0, Fin 0, Fin 0]]) 0 2 = Fin (prod_list (stage5_parts 10 1 1 340 300 0 0 10 0 0) powr (1 / 5))"
    by (simp add: cell_def Let_def)
  then have c: "cell (do_stage5 [[Fin 10, Fin 10, Fin 10, Fin 10]] [[Fin 1, Fin 1, Fin 1, Fin 1]]
            [[Fin 1, Fin 1, Fin 1, Fin 1]] [[Fin 340, Fin 340, Fin 340, Fin 300]]
            [[Fin 300, Fin 300, Fin 300, Fin 300]] [[Fin 1, Fin 1, Fin 0, Fin 0]]
            [[Fin 0, Fin 0, Fin 0, Fin 0]] [[Fin 10, Fin 0, Fin 10, Fin 10]]
            [[Fin 0, Fin 0, Fin 0, Fin 0]] [[Fin 0, Fin 0, Fin 0, Fin 0]]) 0 2 = Fin 1"
    by (simp add: stage5_example_parts)
  from t3 have d: "cell (do_stage5 [[Fin 10, Fin 10, Fin 10, Fin 10]] [[Fin 1, Fin 1, Fin 1, Fin 1]]
            [[Fin 1, Fin 1, Fin 1, Fin 1]] [[Fin 340, Fin 340, Fin 340, Fin 300]]
            [[Fin 300, Fin 300, Fin 300, Fin 300]] [[Fin 1, Fin 1, Fin 0, Fin 0]]
            [[Fin 0, Fin 0, Fin 0, Fin 0]] [[Fin 10, Fin 0, Fin 10, Fin 10]]
            [[Fin 0, Fin 0, Fin 0, Fin 0]] [[Fin 0, Fin 0, Fin 0, Fin 0]]) 0 3 = NaN"
    by (simp add: cell_def)
  from i(1) a b c d show ?thesis by blast
qed

text \<open>
  A cell whose window count is 0 does not get the confidence 0: the cloud fraction is
  0/0, which is NaN, and NaN goes through \<open>comp_stat\<close>, the product and the root. So
  does the z-score 0/0 of a pixel equal to the mean of a uniform background, whose
  inputs are finite and whose window statistics are available.
\<close>

theorem do_stage5_no_window_counterexample:
  "cell [[Fin 10, Fin 0, Fin 10, Fin (10::real)]] 0 1 = Fin 0 \<and>
   cell (do_stage5 [[Fin 10, Fin 10, Fin 10, Fin 10]] [[Fin 1, Fin 1, Fin 1, Fin 1]]
            [[Fin 1, Fin 1, Fin 1, Fin 1]] [[Fin 340, Fin 340, Fin 340, Fin 300]]
            [[Fin 300, Fin 300, Fin 300, Fin 300]] [[Fin 1, Fin 1, Fin 0, Fin 0]]
            [[Fin 0, Fin 0, Fin 0, Fin 0]] [[Fin 10, Fin 0, Fin 10, Fin 10]]
            [[Fin 0, Fin 0, Fin 0, Fin 0]] [[Fin 0, Fin 0, Fin 0, Fin 0]]) 0 1 \<noteq> Fin 0 \<and>
   cell (do_stage5 [[Fin 10, Fin 10, Fin 10, Fin 10]] [[Fin 1, Fin 1, Fin 1, Fin 1]]
            [[Fin 1, Fin 1, Fin 1, Fin 1]] [[Fin 340, Fin 340, Fin 340, Fin 300]]
            [[Fin 300, Fin 300, Fin 300, Fin 300]] [[Fin 1, Fin 1, Fin 0, Fin 0]]
            [[Fin 0, Fin 0, Fin 0, Fin 0]] [[Fin 10, Fin 0, Fin 10, Fin 10]]
            [[Fin 0, Fin 0, Fin 0, Fin 0]] [[Fin 0, Fin 0, Fin 0, Fin 0]]) 0 3 = NaN"
proof -
  have "cell (do_stage5 [[Fin 10, Fin 10, Fin 10, Fin 10]] [[Fin 1, Fin 1, Fin 1, Fin 1]]
            [[Fin 1, Fin 1, Fin 1, Fin 1]] [[Fin 340, Fin 340, Fin 340, Fin 300]]
            [[Fin 300, Fin 300, Fin 300, Fin 300]] [[Fin 1, Fin 1, Fin 0, Fin 0]]
            [[Fin 0, Fin 0, Fin 0, Fin 0]] [[Fin 10, Fin 0, Fin 10, Fin 10]]
            [[Fin 0, Fin 0, Fin 0, Fin 0]] [[Fin 0, Fin 0, Fin 0, Fin 0]]) 0 1 =
        do_stage5_px (Fin 10) (Fin 1) (Fin 1) (Fin 340) (Fin 300) (Fin 1) (Fin 0) (Fin 0) (Fin 0) (Fin 0)"
    by (simp add: cell_do_stage5 shape_def inb_def) (simp add: cell_def)
  moreover have "cell (do_stage5 [[Fin 10, Fin 10, Fin 10, Fin 10]] [[Fin 1, Fin 1, Fin 1, Fin 1]]
            [[Fin 1, Fin 1, Fin 1, Fin 1]] [[Fin 340, Fin 340, Fin 340, Fin 300]]
            [[Fin 300, Fin 300, Fin 300, Fin 300]] [[Fin 1, Fin 1, Fin 0, Fin 0]]
            [[Fin 0, Fin 0, Fin 0, Fin 0]] [[Fin 10, Fin 0, Fin 10, Fin 10]]
            [[Fin 0, Fin 0, Fin 0, Fin 0]] [[Fin 0, Fin 0, Fin 0, Fin 0]]) 0 3 =
        do_stage5_px (Fin 10) (Fin 1) (Fin 1) (Fin 300) (Fin 300) (Fin 0) (Fin 0) (Fin 10) (Fin 0) (Fin 0)"
    by (simp add: cell_do_stage5 shape_def inb_def) (simp add: cell_def)
  ultimately show ?thesis
    by (simp add: do_stage5_px_no_window do_stage5_px_no_spread cell_def)
qed

section \<open>The MIR and BTD tests of stage 1 are gates\<close>

lemma reflect_idx_border:
  "reflect_idx 3 (-1) = 0 \<and> reflect_idx 3 3 = 2 \<and> reflect_idx 3 (-2) = 1 \<and> reflect_idx 1 5 = 0 \<and> reflect_idx 3 1 = 1"
  by (simp add: reflect_idx_def Let_def)

lemma shape_convolve_cells [simp]: "shape (convolve_cells mul add zero img weights) = shape img"
  unfolding convolve_cells_def shape_def
  by (rule nth_equalityI) simp_all

lemma convolve_with_shape:
  "convolve_with mul add zero img weights = Inr r \<Longrightarrow> shape r = shape img"
  by (auto simp: convolve_with_def split: if_splits)

lemma convolve_with_fits:
  "length weights div 2 \<le> length img \<Longrightarrow> ncols weights div 2 \<le> ncols img \<Longrightarrow>
   convolve_with mul add zero img weights = Inr (convolve_cells mul add zero img weights)"
  by (simp add: convolve_with_def)

lemma make_kern_dims:
  assumes "make_kern k = Inr w"
  shows "length (gmap Fin w) = k" and "ncols (gmap Fin w) = k"
  using assms
  by (auto simp: make_kern_def gmap_def ncols_def Let_def split: if_splits)

lemma do_apply_shape:
  "do_apply_stg1b_kern2 a k = Inr (ker, sd) \<Longrightarrow> shape ker = shape a"
  by (auto simp: do_apply_stg1b_kern2_def convolve_def Let_def
      dest: convolve_with_shape split: sum.splits)

lemma do_apply_supported:
  assumes "k \<in> {3, 5, 7, 9, 11}" and "k div 2 \<le> length a" and "k div 2 \<le> ncols a"
  shows "\<exists>ker sd. do_apply_stg1b_kern2 a k = Inr (ker, sd)"
proof -
  from assms(1) obtain w where w: "make_kern k = Inr w"
    by (auto simp: make_kern_def Let_def)
  from make_kern_dims [OF w] assms(2,3)
  have "convolve a w = Inr (convolve_cells fl_mul fl_add (Fin 0) a (gmap Fin w))"
    unfolding convolve_def by (intro convolve_with_fits) simp_all
  with w show ?thesis by (simp add: do_apply_stg1b_kern2_def Let_def)
qed

lemma stage1b_votes_shape:
  "stage1b_votes in_btd thr ks main = Inr main' \<Longrightarrow> shape thr = shape in_btd \<Longrightarrow>
   shape main = shape in_btd \<Longrightarrow> shape main' = shape in_btd"
proof (induction ks arbitrary: main)
  case Nil
  then show ?case by simp
next
  case (Cons k ks)
  from Cons.prems(1) obtain ker sd where d: "do_apply_stg1b_kern2 in_btd k = Inr (ker, sd)"
    by (auto split: sum.splits)
  then have sk: "shape ker = shape in_btd" by (rule do_apply_shape)
  let ?tmp = "gmap2 (\<lambda>k t. if fl_ge k (fl_mul sd t) then 1 else (0::nat)) ker thr"
  let ?main = "gmap2 (\<lambda>t m. if t > 0 then m + 1 else m) ?tmp main"
  from sk Cons.prems have sm: "shape ?main = shape in_btd" by simp
  from Cons.prems(1) d have "stage1b_votes in_btd thr ks ?main = Inr main'"
    by (simp add: Let_def)
  from Cons.IH [OF this Cons.prems(2) sm] show ?case .
qed

lemma stage1b_votes_supported:
  "set ks \<subseteq> {3, 5, 7, 9, 11} \<Longrightarrow>
   \<forall>k \<in> set ks. k div 2 \<le> length in_btd \<and> k div 2 \<le> ncols in_btd \<Longrightarrow>
   \<exists>main'. stage1b_votes in_btd thr ks main = Inr main'"
proof (induction ks arbitrary: main)
  case Nil
  then show ?case by simp
next
  case (Cons k ks)
  then have "k \<in> {3, 5, 7, 9, 11}" "k div 2 \<le> length in_btd" "k div 2 \<le> ncols in_btd"
    by simp_all
  from do_apply_supported [OF this] obtain ker sd
    where "do_apply_stg1b_kern2 in_btd k = Inr (ker, sd)" by blast
  moreover from Cons.prems have "set ks \<subseteq> {3, 5, 7, 9, 11}"
    "\<forall>k \<in> set ks. k div 2 \<le> length in_btd \<and> k div 2 \<le> ncols in_btd" by simp_all
  ultimately show ?case using Cons.IH by (simp add: Let_def)
qed

lemma shape_zeros_like [simp]: "shape (zeros_like a) = shape a"
  by (simp add: zeros_like_def)

lemma shape_set_initial_thresholds [simp]:
  "shape (fst (set_initial_thresholds_default c sza)) = shape sza"
  "shape (snd (set_initial_thresholds_default c sza)) = shape sza"
  by (simp_all add: set_initial_thresholds_default_def set_initial_thresholds_def Let_def)

lemma cell_hard_gate:
  "shape passes = shape main \<Longrightarrow> inb main i j \<Longrightarrow>
   cell (hard_gate passes main) i j = (if cell passes i j then cell main i j + 1 else 0)"
  by (simp add: hard_gate_def inb_shape)

lemma shape_hard_gate [simp]:
  "shape passes = shape main \<Longrightarrow> shape (hard_gate passes main) = shape main"
  by (simp add: hard_gate_def)

lemma fl_lt_not_ge: "fl_lt a b \<Longrightarrow> \<not> fl_ge a b"
  by (cases a; cases b) (auto simp: fl_ge_def)

lemma stage1_tests_cell:
  assumes sh: "shape in_btd = shape in_mir" "shape in_vid = shape in_mir"
      "shape in_sza = shape in_mir" "shape in_lsm = shape in_mir"
    and ij: "inb in_mir i j"
    and ks: "set ksizes \<subseteq> {3, 5, 7, 9, 11}"
    and fit: "\<forall>k \<in> set ksizes. k div 2 \<le> length in_btd \<and> k div 2 \<le> ncols in_btd"
  shows "\<exists>votes pfp.
      stage1b_votes in_btd
        (gmap (\<lambda>s. fl_add (Fin kb) (fl_mul (Fin ka) s)) in_sza) ksizes (zeros_like in_mir)
        = Inr votes \<and> shape votes = shape in_mir \<and>
      stage1_tests c in_mir in_btd in_vid in_sza in_lsm ksizes kb ka lsm lv = Inr pfp \<and>
      cell pfp i j =
        stage1_px c (cell votes i j) (cell in_mir i j) (cell in_btd i j) (cell in_vid i j)
          (cell in_lsm i j) (cell (fst (set_initial_thresholds_default c in_sza)) i j)
          (cell (snd (set_initial_thresholds_default c in_sza)) i j) lsm lv"
proof -
  let ?thr = "gmap (\<lambda>s. fl_add (Fin kb) (fl_mul (Fin ka) s)) in_sza"
  let ?mt = "fst (set_initial_thresholds_default c in_sza)"
  let ?bt = "snd (set_initial_thresholds_default c in_sza)"
  from stage1b_votes_supported [OF ks fit] obtain votes
    where v: "stage1b_votes in_btd ?thr ksizes (zeros_like in_mir) = Inr votes" by blast
  from stage1b_votes_shape [OF v] sh have sv: "shape votes = shape in_mir" by simp
  let ?m1 = "hard_gate (gmap2 fl_ge in_mir ?mt) votes"
  let ?m2 = "hard_gate (gmap2 fl_ge in_btd ?bt) ?m1"
  let ?m3 = "if lsm then gmap2 (\<lambda>l m. if fl_eq l (Fin lv) then m else 0) in_lsm ?m2 else ?m2"
  let ?m4 = "gmap2 (\<lambda>v m. if fl_ge v (Fin 0) then m else 0) in_vid ?m3"
  let ?pfp = "gmap (\<lambda>m. if m \<ge> stage1_pass_thresh c then 1 else (0::nat)) ?m4"
  have s1: "shape ?m1 = shape in_mir" using sh sv by simp
  have s2: "shape ?m2 = shape in_mir" using sh sv s1 by simp
  have s3: "shape ?m3 = shape in_mir" using sh s2 by simp
  have s4: "shape ?m4 = shape in_mir" using sh s3 by simp
  have iv: "inb votes i j" "inb ?m1 i j" "inb ?m2 i j" "inb ?m3 i j" "inb ?m4 i j"
      "inb in_btd i j" "inb in_vid i j" "inb in_lsm i j"
    using ij sh sv s1 s2 s3 s4 by (simp_all add: inb_shape)
  have c1: "cell ?m1 i j = (if fl_ge (cell in_mir i j) (cell ?mt i j) then cell votes i j + 1 else 0)"
    using sh sv ij iv(1) by (simp add: cell_hard_gate)
  have c2: "cell ?m2 i j = (if fl_ge (cell in_btd i j) (cell ?bt i j) then cell ?m1 i j + 1 else 0)"
    using sh s1 iv(2) iv(6) by (simp add: cell_hard_gate)
  have c3: "cell ?m3 i j =
      (if lsm then (if fl_eq (cell in_lsm i j) (Fin lv) then cell ?m2 i j else 0) else cell ?m2 i j)"
    using sh s2 iv(8) by simp
  have c4: "cell ?m4 i j = (if fl_ge (cell in_vid i j) (Fin 0) then cell ?m3 i j else 0)"
    using sh s3 iv(7) by simp
  have cp: "cell ?pfp i j = (if cell ?m4 i j \<ge> stage1_pass_thresh c then 1 else 0)"
    using iv(5) by simp
  have res: "stage1_tests c in_mir in_btd in_vid in_sza in_lsm ksizes kb ka lsm lv = Inr ?pfp"
    using v by (simp add: stage1_tests_def Let_def split_beta)
  have "cell ?pfp i j =
        stage1_px c (cell votes i j) (cell in_mir i j) (cell in_btd i j) (cell in_vid i j)
          (cell in_lsm i j) (cell ?mt i j) (cell ?bt i j) lsm lv"
    unfolding stage1_px_def Let_def cp c4 c3 c2 c1 by simp
  with v sv res show ?thesis by blast
qed

lemma stage1_px_gate:
  assumes "1 < stage1_pass_thresh c" and "\<not> fl_ge mir mt \<or> \<not> fl_ge btd bt"
  shows "stage1_px c votes mir btd vid l mt bt lsm lv = 0"
  using assms by (auto simp: stage1_px_def Let_def)

text \<open>
  Claim C1. Take grids of one shape, supported kernel sizes, a scene whose two axes are
  at least as long as the half-width of every kernel (so that no convolution raises), and
  a pass threshold above 1. Then the kernel loop returns its votes, \<open>stage1_tests\<close>
  returns a mask, and the mask at a cell is the pass test of this counter: the MIR
  test sets the counter to the number of kernel votes of the cell plus 1 where it passes
  and to 0 where it fails; the BTD test adds 1 to that counter where it passes and
  sets it to 0 where it fails; then the land-sea mask and the test of the VIS
  difference keep the counter or set it to 0. So a cell with \<open>mir_bt < mir_thresh\<close> or
  \<open>btd < btd_thresh\<close> is 0 in the mask, whatever the number of kernel votes of the cell.
\<close>

theorem stage1_hard_gates:
  assumes sh: "shape in_btd = shape in_mir" "shape in_vid = shape in_mir"
      "shape in_sza = shape in_mir" "shape in_lsm = shape in_mir"
    and ij: "inb in_mir i j"
    and ks: "set ksizes \<subseteq> {3, 5, 7, 9, 11}"
    and fit: "\<forall>k \<in> set ksizes. k div 2 \<le> length in_btd \<and> k div 2 \<le> ncols in_btd"
    and thr: "1 < stage1_pass_thresh c"
  shows "\<exists>votes pfp.
      stage1b_votes in_btd
        (gmap (\<lambda>s. fl_add (Fin kb) (fl_mul (Fin ka) s)) in_sza) ksizes (zeros_like in_mir)
        = Inr votes \<and>
      stage1_tests c in_mir in_btd in_vid in_sza in_lsm ksizes kb ka lsm lv = Inr pfp \<and>
      cell pfp i j =
        (let m = (if fl_ge (cell in_mir i j)
                       (cell (fst (set_initial_thresholds_default c in_sza)) i j)
                  then cell votes i j + 1 else 0);
             m = (if fl_ge (cell in_btd i j)
                       (cell (snd (set_initial_thresholds_default c in_sza)) i j)
                  then m + 1 else 0);
             m = (if lsm then (if fl_eq (cell in_lsm i j) (Fin lv) then m else 0) else m);
             m = (if fl_ge (cell in_vid i j) (Fin 0) then m else 0)
         in if stage1_pass_thresh c \<le> m then 1 else 0) \<and>
      (fl_lt (cell in_mir i j) (cell (fst (set_initial_thresholds_default c in_sza)) i j) \<or>
       fl_lt (cell in_btd i j) (cell (snd (set_initial_thresholds_default c in_sza)) i j)
         \<longrightarrow> cell pfp i j = 0)"
proof -
  let ?mt = "fst (set_initial_thresholds_default c in_sza)"
  let ?bt = "snd (set_initial_thresholds_default c in_sza)"
  from stage1_tests_cell [OF sh ij ks fit, of kb ka c lsm lv] obtain votes pfp where
    v: "stage1b_votes in_btd (gmap (\<lambda>s. fl_add (Fin kb) (fl_mul (Fin ka) s)) in_sza) ksizes
          (zeros_like in_mir) = Inr votes"
    and res: "stage1_tests c in_mir in_btd in_vid in_sza in_lsm ksizes kb ka lsm lv = Inr pfp"
    and cp: "cell pfp i j =
        stage1_px c (cell votes i j) (cell in_mir i j) (cell in_btd i j) (cell in_vid i j)
          (cell in_lsm i j) (cell ?mt i j) (cell ?bt i j) lsm lv"
    by blast
  have g: "cell pfp i j = 0"
    if "fl_lt (cell in_mir i j) (cell ?mt i j) \<or> fl_lt (cell in_btd i j) (cell ?bt i j)"
    using that cp stage1_px_gate [OF thr] fl_lt_not_ge by metis
  from v res cp [unfolded stage1_px_def] g show ?thesis by blast
qed

lemma stage1_example_thresholds:
  "fst (set_initial_thresholds_default consts_example (uniform4 (Fin 10))) = uniform4 (Fin 307.5)"
  by (simp add: set_initial_thresholds_default_def set_initial_thresholds_def consts_example_def
        gmap_def uniform4_def Let_def)

lemma stage1_example_shapes:
  "shape (uniform4 v) = shape stage1_mir_example" "inb stage1_mir_example 0 0"
  "set [3, 5, 7] \<subseteq> {3, 5, 7, 9, 11::nat}"
  "\<forall>k \<in> set [3, 5, 7::nat]. k div 2 \<le> length (uniform4 v) \<and> k div 2 \<le> ncols (uniform4 v)"
  "1 < stage1_pass_thresh consts_example"
  by (simp_all add: shape_def inb_def uniform4_def stage1_mir_example_def ncols_def
        consts_example_def)

theorem stage1_hard_gates_witness:
  "fl_lt (cell stage1_mir_example 0 0)
         (cell (fst (set_initial_thresholds_default consts_example (uniform4 (Fin 10)))) 0 0) \<and>
   (\<exists>pfp. stage1_tests consts_example stage1_mir_example (uniform4 (Fin 5)) (uniform4 (Fin 1))
            (uniform4 (Fin 10)) (uniform4 (Fin 2)) [3, 5, 7] 1.5 (- 0.012) True 2 = Inr pfp \<and>
          cell pfp 0 0 = 0)"
proof -
  have lt: "fl_lt (cell stage1_mir_example 0 0)
              (cell (fst (set_initial_thresholds_default consts_example (uniform4 (Fin 10)))) 0 0)"
    unfolding stage1_example_thresholds
    by (simp add: cell_def uniform4_def stage1_mir_example_def)
  from stage1_hard_gates [OF stage1_example_shapes(1) stage1_example_shapes(1)
      stage1_example_shapes(1) stage1_example_shapes(1) stage1_example_shapes(2)
      stage1_example_shapes(3) stage1_example_shapes(4) stage1_example_shapes(5),
      where kb = "1.5" and ka = "- 0.012" and lsm = True and lv = 2] lt
  show ?thesis by blast
qed

section \<open>The background radiance is the edge of the first bin above the fraction\<close>


lemma bin_edge_0 [simp]: "bin_edge n lo hi 0 = lo"
  by (simp add: bin_edge_def)









lemma fl_round_NaN [simp]: "fl_round rnd NaN = NaN"
  by (simp add: fl_round_def)






















section \<open>The de-duplication and the early exits of the night detector\<close>

lemma upt_3: "[0..<3] = [0, 1, 2]"
  by (simp add: upt_conv_Cons)

lemma shape_replicate_length:
  assumes "shape g = replicate nr nc"
  shows "length g = nr" and "\<And>r. r < nr \<Longrightarrow> length (g ! r) = nc"
proof -
  from assms have "length (shape g) = nr" by simp
  then show l: "length g = nr" by (simp add: shape_def)
  fix r assume "r < nr"
  with assms l have "shape g ! r = nc" by simp
  with l \<open>r < nr\<close> show "length (g ! r) = nc" by (simp add: shape_def)
qed

lemma reflect_idx3:
  assumes "i < n"
  shows "reflect_idx n (int i + 1) = min (i + 1) (n - 1)" "reflect_idx n (int i) = i"
    "reflect_idx n (int i - 1) = i - 1" "reflect_idx n (1 + int i) = min (i + 1) (n - 1)"
proof -
  show a: "reflect_idx n (int i + 1) = min (i + 1) (n - 1)"
  proof (cases "i + 1 < n")
    case True
    then have "(int i + 1) mod (2 * int n) = int i + 1" by simp
    with True show ?thesis by (simp add: reflect_idx_def Let_def)
  next
    case False
    with assms have n: "n = i + 1" by simp
    have "(int i + 1) mod (2 * (int i + 1)) = int i + 1" by simp
    with n show ?thesis by (simp add: reflect_idx_def Let_def)
  qed
  then show "reflect_idx n (1 + int i) = min (i + 1) (n - 1)" by (simp add: add.commute)
  from assms have "int i mod (2 * int n) = int i" by simp
  with assms show "reflect_idx n (int i) = i" by (simp add: reflect_idx_def Let_def)
  show "reflect_idx n (int i - 1) = i - 1"
  proof (cases i)
    case 0
    have "(- 1) mod (2 * int n) = 2 * int n - 1" using assms
      by (simp add: zmod_minus1)
    with 0 show ?thesis by (simp add: reflect_idx_def Let_def)
  next
    case (Suc k)
    with assms have "(int i - 1) mod (2 * int n) = int i - 1" by simp
    with Suc assms show ?thesis by (simp add: reflect_idx_def Let_def)
  qed
qed

lemma sum_set_le_sum_list: "sum f (set xs) \<le> sum_list (map (f::'a \<Rightarrow> nat) xs)"
proof (induction xs)
  case Nil
  then show ?case by simp
next
  case (Cons x xs)
  have "sum f (set (x # xs)) \<le> f x + sum f (set xs)"
    by (cases "x \<in> set xs") (simp_all add: insert_absorb)
  with Cons show ?case by simp
qed

lemma sum_list_distinct_le:
  assumes "distinct ys" "set ys \<subseteq> set xs"
  shows "sum_list (map (f::'a \<Rightarrow> nat) ys) \<le> sum_list (map f xs)"
proof -
  have "sum_list (map f ys) = sum f (set ys)"
    using assms(1) by (rule sum_list_distinct_conv_sum_set)
  also have "\<dots> \<le> sum f (set xs)"
    using assms(2) by (intro sum_mono2) simp_all
  also have "\<dots> \<le> sum_list (map f xs)" by (rule sum_set_le_sum_list)
  finally show ?thesis .
qed

lemma sum_list_subset_zero:
  assumes "set xs \<subseteq> set ys" "sum_list (map (f::'a \<Rightarrow> nat) ys) = 0"
  shows "sum_list (map f xs) = 0"
  using assms by auto

lemma sum_list_dup_neq_1:
  assumes "distinct ys" "set xs = set ys" "sum_list (map (f::'a \<Rightarrow> nat) ys) \<noteq> 1"
  shows "sum_list (map f xs) \<noteq> 1"
proof (cases "sum_list (map f ys) = 0")
  case True
  with assms(2) have "sum_list (map f xs) = 0" by (intro sum_list_subset_zero [of xs ys]) simp_all
  then show ?thesis by (metis zero_neq_one)
next
  case False
  with assms(3) have "2 \<le> sum_list (map f ys)" by linarith
  moreover have "sum_list (map f ys) \<le> sum_list (map f xs)"
    using assms(1,2) by (intro sum_list_distinct_le) simp_all
  ultimately show ?thesis by linarith
qed


lemma cell_convolve_ones3:
  assumes sh: "shape g = replicate nr nc" and ij: "i < nr" "j < nc"
  shows "cell (convolve_cells (*) (+) 0 g (ones 3 3)) i j
         = sum_list (map (\<lambda>(r, c). g ! r ! c)
             (List.product [min (i + 1) (nr - 1), i, i - 1] [min (j + 1) (nc - 1), j, j - 1]))"
proof -
  note l = shape_replicate_length [OF sh]
  note r = reflect_idx3 [OF ij(1)]
  note c = reflect_idx3 [OF ij(2)]
  have o: "ones 3 3 = [[1, 1, 1], [1, 1, 1], [1, 1, 1]]"
    by (simp add: ones_def numeral_3_eq_3)
  have rows: "length (g ! min (i + 1) (nr - 1)) = nc" "length (g ! i) = nc"
    "length (g ! (i - 1)) = nc"
    using ij by (simp_all add: l(2))
  show ?thesis
    using ij l(1) rows
    by (simp add: convolve_cells_def cell_def o upt_3 Let_def r c del: One_nat_def)
qed

lemma nbhd3_product:
  "nbhd3 g i j = map (\<lambda>(r, c). g ! r ! c)
     (List.product [i - 1..<min (i + 2) (length g)] [j - 1..<min (j + 2) (length (g ! i))])"
  by (simp add: nbhd3_def cell_def List.product_concat_map map_concat o_def)

lemma clipped_idx_set:
  assumes "i < n"
  shows "set [min (i + 1) (n - 1), i, i - 1] = set [i - 1..<min (i + 2) n]"
  using assms by auto

lemma det_sum_neq_1:
  assumes sh: "shape g = replicate nr nc" and ij: "i < nr" "j < nc"
    and s: "sum_list (nbhd3 g i j) \<noteq> 1"
  shows "cell (convolve_cells (*) (+) 0 g (ones 3 3)) i j \<noteq> 1"
proof -
  note l = shape_replicate_length [OF sh]
  let ?xs = "List.product [min (i + 1) (nr - 1), i, i - 1] [min (j + 1) (nc - 1), j, j - 1]"
  let ?ys = "List.product [i - 1..<min (i + 2) nr] [j - 1..<min (j + 2) nc]"
  have d: "distinct ?ys" by (intro distinct_product) simp_all
  have e: "set ?xs = set ?ys"
    unfolding set_product clipped_idx_set [OF ij(1)] clipped_idx_set [OF ij(2)] ..
  from s have "sum_list (map (\<lambda>(r, c). g ! r ! c) ?ys) \<noteq> 1"
    unfolding nbhd3_product l(1) l(2) [OF ij(1)] .
  with d e have "sum_list (map (\<lambda>(r, c). g ! r ! c) ?xs) \<noteq> 1"
    by (rule sum_list_dup_neq_1)
  then show ?thesis unfolding cell_convolve_ones3 [OF sh ij] .
qed

lemma interior_idx:
  assumes "1 \<le> i" "i + 1 < n"
  shows "[i - 1..<min (i + 2) n] = [i - 1, i, i + 1]" "min (i + 1) (n - 1) = i + 1"
proof -
  from assms have "min (i + 2) n = i + 2" by simp
  moreover have "[i - 1..<i + 2] = [i - 1, i, i + 1]"
    using assms(1) by (simp add: upt_conv_Cons)
  ultimately show "[i - 1..<min (i + 2) n] = [i - 1, i, i + 1]" by simp
  from assms show "min (i + 1) (n - 1) = i + 1" by simp
qed

lemma det_sum_interior:
  assumes sh: "shape g = replicate nr nc"
    and ij: "1 \<le> i" "i + 1 < nr" "1 \<le> j" "j + 1 < nc"
  shows "cell (convolve_cells (*) (+) 0 g (ones 3 3)) i j = sum_list (nbhd3 g i j)"
proof -
  note l = shape_replicate_length [OF sh]
  from ij have b: "i < nr" "j < nc" by simp_all
  show ?thesis
    unfolding cell_convolve_ones3 [OF sh b] nbhd3_product l(1) l(2) [OF b(1)]
      interior_idx [OF ij(1,2)] interior_idx [OF ij(3,4)]
    by simp
qed

lemma cell_maximum_cells3:
  assumes sh: "shape g = replicate nr nc"
    and ij: "1 \<le> i" "i + 1 < nr" "1 \<le> j" "j + 1 < nc"
  shows "cell (maximum_cells nan_max g 3 3) i j
         = (if list_ex isnan (nbhd3 g i j) then nan_max g i j
            else foldl fl_max (hd (nbhd3 g i j)) (tl (nbhd3 g i j)))"
proof -
  note l = shape_replicate_length [OF sh]
  from ij have b: "i < nr" "j < nc" by simp_all
  note r = reflect_idx3 [OF b(1)]
  note c = reflect_idx3 [OF b(2)]
  have rows: "length (g ! (i + 1)) = nc" "length (g ! i) = nc" "length (g ! (i - 1)) = nc"
    using ij l(2) by simp_all
  have w: "nbhd3 g i j =
        [g ! (i - 1) ! (j - 1), g ! (i - 1) ! j, g ! (i - 1) ! (j + 1),
         g ! i ! (j - 1), g ! i ! j, g ! i ! (j + 1),
         g ! (i + 1) ! (j - 1), g ! (i + 1) ! j, g ! (i + 1) ! (j + 1)]"
    unfolding nbhd3_product l(1) l(2) [OF b(1)] interior_idx [OF ij(1,2)] interior_idx [OF ij(3,4)]
    by simp
  have m: "min (i + 1) (nr - 1) = i + 1" "min (j + 1) (nc - 1) = j + 1"
    using ij by simp_all
  show ?thesis
    unfolding w using ij b l(1) rows
    by (simp add: maximum_cells_def cell_def upt_3 Let_def r c m del: One_nat_def foldl_Cons)
qed

lemma fl_le_total: "\<not> isnan a \<Longrightarrow> \<not> isnan b \<Longrightarrow> fl_le a b \<or> fl_le b a"
  by (cases a; cases b) auto

lemma fl_le_trans: "fl_le a b \<Longrightarrow> fl_le b c \<Longrightarrow> fl_le a c"
  by (cases a; cases b; cases c) auto

lemma fl_le_antisym: "fl_le a b \<Longrightarrow> fl_le b a \<Longrightarrow> a = b"
  by (cases a; cases b) auto

lemma fl_le_refl: "\<not> isnan a \<Longrightarrow> fl_le a a"
  by (cases a) auto

lemma fl_lt_le: "\<not> isnan a \<Longrightarrow> \<not> isnan b \<Longrightarrow> \<not> fl_lt a b \<Longrightarrow> fl_le b a"
  by (cases a; cases b) auto

lemma fl_lt_imp_le: "fl_lt a b \<Longrightarrow> fl_le a b"
  by (cases a; cases b) auto

lemma foldl_fl_max_greatest:
  assumes "\<forall>v\<in>set (a # rs). \<not> isnan v"
  shows "foldl fl_max a rs \<in> set (a # rs) \<and> (\<forall>y\<in>set (a # rs). fl_le y (foldl fl_max a rs))"
  using assms
proof (induction rs arbitrary: a)
  case Nil
  then show ?case by (simp add: fl_le_refl)
next
  case (Cons r rs)
  let ?m = "fl_max a r"
  from Cons.prems have n: "\<not> isnan a" "\<not> isnan r" "\<forall>v\<in>set rs. \<not> isnan v" by simp_all
  have mm: "?m = a \<or> ?m = r" by (simp add: fl_max_def)
  with n have "\<forall>v\<in>set (?m # rs). \<not> isnan v" by auto
  from Cons.IH [OF this] have ih: "foldl fl_max ?m rs \<in> set (?m # rs)"
    "\<forall>y\<in>set (?m # rs). fl_le y (foldl fl_max ?m rs)" by simp_all
  from ih(2) have top: "fl_le ?m (foldl fl_max ?m rs)" by simp
  have "fl_le a ?m" "fl_le r ?m"
    using n by (auto simp: fl_max_def fl_le_refl fl_lt_imp_le fl_lt_le)
  then have "fl_le a (foldl fl_max ?m rs)" "fl_le r (foldl fl_max ?m rs)"
    using top by (blast intro: fl_le_trans)+
  moreover from ih(1) mm have "foldl fl_max ?m rs \<in> set (a # r # rs)" by auto
  ultimately show ?case using ih(2) by simp
qed

lemma window_max_eq:
  assumes nn: "list_all (\<lambda>v. \<not> isnan v) ws" and mem: "c \<in> set ws"
  shows "fl_eq c (foldl fl_max (hd ws) (tl ws)) = list_all (\<lambda>v. fl_le v c) ws"
proof -
  from mem obtain a rs where ws: "ws = a # rs" by (cases ws) auto
  let ?M = "foldl fl_max a rs"
  from nn ws have "\<forall>v\<in>set (a # rs). \<not> isnan v" by (simp add: list_all_iff)
  from foldl_fl_max_greatest [OF this]
  have inM: "?M \<in> set ws" and ge: "\<forall>y\<in>set ws. fl_le y ?M" unfolding ws by simp_all
  from nn mem have c: "\<not> isnan c" by (simp add: list_all_iff)
  have "(c = ?M) = (\<forall>y\<in>set ws. fl_le y c)"
  proof
    assume "c = ?M"
    with ge show "\<forall>y\<in>set ws. fl_le y c" by simp
  next
    assume a: "\<forall>y\<in>set ws. fl_le y c"
    with inM have "fl_le ?M c" by blast
    moreover from ge mem have "fl_le c ?M" by blast
    ultimately show "c = ?M" by (rule fl_le_antisym [symmetric])
  qed
  with c show ?thesis by (simp add: ws fl_eq_def list_all_iff)
qed

lemma centre_in_nbhd3:
  assumes "i < length g" "j < length (g ! i)"
  shows "cell g i j \<in> set (nbhd3 g i j)"
proof -
  from assms have a: "i \<in> {i - 1..<min (i + 2) (length g)}"
    and b: "j \<in> {j - 1..<min (j + 2) (length (g ! i))}" by simp_all
  have "set (nbhd3 g i j) = (\<Union>a\<in>{i - 1..<min (i + 2) (length g)}.
          (\<lambda>b. cell g a b) ` {j - 1..<min (j + 2) (length (g ! i))})"
    by (auto simp: nbhd3_def)
  with a b show ?thesis by blast
qed

lemma list_ex_isnan: "list_ex isnan ws = (\<not> list_all (\<lambda>v. \<not> isnan v) ws)"
  by (simp add: list_ex_iff list_all_iff)


lemma shape_maximum_cells [simp]: "shape (maximum_cells nan_max g sr sc) = shape g"
  unfolding maximum_cells_def shape_def
  by (rule nth_equalityI) simp_all

lemma ncols_shape:
  assumes "shape g = replicate nr nc" "0 < nr"
  shows "ncols g = nc"
proof -
  note l = shape_replicate_length [OF assms(1)]
  from l(1) assms(2) have ne: "g \<noteq> []" by auto
  then have "hd g = g ! 0" by (rule hd_conv_nth)
  with l(2) [OF assms(2)] ne show ?thesis by (simp add: ncols_def)
qed

lemma filters3_fit:
  assumes sh: "shape g = replicate nr nc" and ij: "i < nr" "j < nc"
  shows "convolve_u8 g (ones 3 3) = Inr (convolve_cells (*) (+) 0 g (ones 3 3))"
    and "shape g' = shape g \<Longrightarrow>
         maximum_filter nan_max g' (3, 3) = Inr (maximum_cells nan_max g' 3 3)"
proof -
  from ij have p: "0 < nr" by simp
  note l = shape_replicate_length(1) [OF sh]
  have o: "length (ones 3 3) = 3" "ncols (ones 3 3) = 3"
    by (simp_all add: ones_def ncols_def numeral_3_eq_3)
  from ij l ncols_shape [OF sh p]
  show "convolve_u8 g (ones 3 3) = Inr (convolve_cells (*) (+) 0 g (ones 3 3))"
    unfolding convolve_u8_def by (intro convolve_with_fits) (simp_all add: o)
  assume "shape g' = shape g"
  with sh have sh': "shape g' = replicate nr nc" by simp
  from ij shape_replicate_length(1) [OF sh'] ncols_shape [OF sh' p]
  show "maximum_filter nan_max g' (3, 3) = Inr (maximum_cells nan_max g' 3 3)"
    by (simp add: maximum_filter_def)
qed

lemma dedup_step_cell:
  assumes sh: "shape in_vid = replicate nr nc" "shape out_dets = shape in_vid"
    and ij: "i < nr" "j < nc"
  shows "\<exists>r. dedup_step nan_max out_dets in_vid = Inr r \<and>
           cell r i j =
             (if cell (convolve_cells (*) (+) 0 out_dets (ones 3 3)) i j = 1
              then (if fl_eq (cell in_vid i j) (cell (maximum_cells nan_max in_vid 3 3) i j)
                    then 1 else 0)
              else cell out_dets i j)"
proof -
  from sh have sho: "shape out_dets = replicate nr nc" by simp
  note f = filters3_fit(1) [OF sho ij] filters3_fit(2) [OF sho ij sh(2) [symmetric]]
  from sh(1) ij have b: "inb in_vid i j" by (simp add: inb_shape)
  show ?thesis
    unfolding dedup_step_def f sum.case Let_def
    using sh(2) b by (simp add: inb_shape)
qed

lemma border_det_sum:
  assumes sh: "shape g = replicate nr nc" and ij: "i < nr" "j < nc"
    and bd: "i = 0 \<or> i + 1 = nr \<or> j = 0 \<or> j + 1 = nc"
    and c: "cell g i j = 1"
  shows "cell (convolve_cells (*) (+) 0 g (ones 3 3)) i j \<noteq> 1"
proof -
  from c have g: "g ! i ! j = 1" by (simp add: cell_def)
  have m: "i + 1 = nr \<Longrightarrow> min (i + 1) (nr - 1) = i" "j + 1 = nc \<Longrightarrow> min (j + 1) (nc - 1) = j"
    by simp_all
  from bd consider "i = 0" | "i + 1 = nr" | "j = 0" | "j + 1 = nc" by blast
  then have "2 \<le> cell (convolve_cells (*) (+) 0 g (ones 3 3)) i j"
  proof cases
    case 1
    with g show ?thesis unfolding cell_convolve_ones3 [OF sh ij] by simp
  next
    case 2
    with g show ?thesis unfolding cell_convolve_ones3 [OF sh ij] m(1) [OF 2] by simp
  next
    case 3
    with g show ?thesis unfolding cell_convolve_ones3 [OF sh ij] by simp
  next
    case 4
    with g show ?thesis unfolding cell_convolve_ones3 [OF sh ij] m(2) [OF 4] by simp
  qed
  then show ?thesis by linarith
qed

lemma dedup_step_window:
  assumes sh: "shape in_vid = replicate nr nc" "shape out_dets = shape in_vid"
    and ij: "i < nr" "j < nc"
  shows "\<exists>r. dedup_step nan_max out_dets in_vid = Inr r \<and>
      (1 \<le> i \<and> i + 1 < nr \<and> 1 \<le> j \<and> j + 1 < nc \<and>
       sum_list (nbhd3 out_dets i j) = 1 \<and> list_all (\<lambda>v. \<not> isnan v) (nbhd3 in_vid i j) \<longrightarrow>
         cell r i j =
           (if list_all (\<lambda>v. fl_le v (cell in_vid i j)) (nbhd3 in_vid i j) then 1 else 0)) \<and>
      (sum_list (nbhd3 out_dets i j) \<noteq> 1 \<longrightarrow> cell r i j = cell out_dets i j) \<and>
      ((i = 0 \<or> i + 1 = nr \<or> j = 0 \<or> j + 1 = nc) \<and> cell out_dets i j = 1 \<longrightarrow>
         cell r i j = 1)"
proof -
  from sh have sho: "shape out_dets = replicate nr nc" by simp
  from dedup_step_cell [OF sh ij, of nan_max] obtain r where
    r: "dedup_step nan_max out_dets in_vid = Inr r"
    and c: "cell r i j =
             (if cell (convolve_cells (*) (+) 0 out_dets (ones 3 3)) i j = 1
              then (if fl_eq (cell in_vid i j) (cell (maximum_cells nan_max in_vid 3 3) i j)
                    then 1 else 0)
              else cell out_dets i j)" by blast
  note l = shape_replicate_length [OF sh(1)]
  have a: "cell r i j =
      (if list_all (\<lambda>v. fl_le v (cell in_vid i j)) (nbhd3 in_vid i j) then 1 else 0)"
    if "1 \<le> i" "i + 1 < nr" "1 \<le> j" "j + 1 < nc"
      and s: "sum_list (nbhd3 out_dets i j) = 1"
      and n: "list_all (\<lambda>v. \<not> isnan v) (nbhd3 in_vid i j)"
  proof -
    from l ij have "cell in_vid i j \<in> set (nbhd3 in_vid i j)"
      by (intro centre_in_nbhd3) simp_all
    note e = window_max_eq [OF n this]
    from n have x: "list_ex isnan (nbhd3 in_vid i j) = False" by (simp add: list_ex_isnan)
    show ?thesis
      unfolding c det_sum_interior [OF sho that(1-4)] s
        cell_maximum_cells3 [OF sh(1) that(1-4)] x if_False e
      by simp
  qed
  have b: "cell r i j = cell out_dets i j" if "sum_list (nbhd3 out_dets i j) \<noteq> 1"
    using det_sum_neq_1 [OF sho ij that] c by simp
  have d: "cell r i j = 1"
    if "i = 0 \<or> i + 1 = nr \<or> j = 0 \<or> j + 1 = nc" "cell out_dets i j = 1"
    using border_det_sum [OF sho ij that] c that(2) by simp
  from r a b d show ?thesis by blast
qed

lemma dedup_example_shapes:
  "shape dedup_vid = replicate 3 5" "shape dedup_vid_peak = replicate 3 5"
  "shape dedup_dets = shape dedup_vid" "shape dedup_dets = shape dedup_vid_peak"
  by (simp_all add: shape_def dedup_vid_def dedup_vid_peak_def dedup_dets_def numeral_3_eq_3)

lemma dedup_example_windows:
  "nbhd3 dedup_dets 1 2 = [0, 0, 0, 0, 1, 0, 0, 0, 0]"
  "nbhd3 dedup_dets 1 3 = [0, 0, 0, 1, 0, 0, 0, 0, 0]"
  "nbhd3 dedup_dets 1 1 = [0, 0, 0, 0, 0, 1, 0, 0, 0]"
  "nbhd3 dedup_vid 1 2 = [Fin 0, Fin 0, Fin 0, Fin 9, Fin 5, Fin 0, Fin 0, Fin 0, Fin 0]"
  "nbhd3 dedup_vid 1 3 = [Fin 0, Fin 0, Fin 0, Fin 5, Fin 0, Fin 0, Fin 0, Fin 0, Fin 0]"
  "nbhd3 dedup_vid 1 1 = [Fin 0, Fin 0, Fin 0, Fin 0, Fin 9, Fin 5, Fin 0, Fin 0, Fin 0]"
  "nbhd3 dedup_vid_peak 1 2 = [Fin 0, Fin 0, Fin 0, Fin 2, Fin 5, Fin 0, Fin 0, Fin 0, Fin 0]"
  by (simp_all add: nbhd3_def upt_conv_Cons cell_def dedup_dets_def dedup_vid_def
        dedup_vid_peak_def)

lemma dedup_example_cells:
  "cell dedup_dets 1 2 = 1" "cell dedup_dets 1 1 = 0"
  "cell dedup_vid 1 2 = Fin 5" "cell dedup_vid 1 1 = Fin 9" "cell dedup_vid_peak 1 2 = Fin 5"
  by (simp_all add: cell_def dedup_dets_def dedup_vid_def dedup_vid_peak_def)


text \<open>
  Claim C7, as the code has it. Take grids of \<open>nr\<close> rows and \<open>nc\<close> columns and a cell of
  the grid; the step returns a mask, and at the cell the mask is as follows. If the
  cell is not on the border, is a candidate and the only one in its own 3 by 3
  neighbourhood, and no VIS difference of that neighbourhood is NaN, the cell is kept
  exactly when no cell of the neighbourhood has a greater VIS difference, and dropped
  otherwise. If the neighbourhood of the cell, clipped to the grid, holds no candidate
  or more than one, the cell keeps its value. A candidate on the border keeps its
  value as well: the mirrored border counts it twice.
\<close>

theorem dedup_step_sole_candidate:
  assumes "shape in_vid = replicate nr nc" and "shape out_dets = shape in_vid"
    and "i < nr" and "j < nc"
  shows "\<exists>r. dedup_step nan_max out_dets in_vid = Inr r \<and>
      (1 \<le> i \<and> i + 1 < nr \<and> 1 \<le> j \<and> j + 1 < nc \<and> cell out_dets i j = 1 \<and>
       sum_list (nbhd3 out_dets i j) = 1 \<and> list_all (\<lambda>v. \<not> isnan v) (nbhd3 in_vid i j) \<longrightarrow>
         cell r i j =
           (if list_all (\<lambda>v. fl_le v (cell in_vid i j)) (nbhd3 in_vid i j) then 1 else 0)) \<and>
      (sum_list (nbhd3 out_dets i j) \<noteq> 1 \<longrightarrow> cell r i j = cell out_dets i j) \<and>
      ((i = 0 \<or> i + 1 = nr \<or> j = 0 \<or> j + 1 = nc) \<and> cell out_dets i j = 1 \<longrightarrow>
         cell r i j = 1)"
proof -
  from dedup_step_window [OF assms, of nan_max] obtain r where
    "dedup_step nan_max out_dets in_vid = Inr r"
    "1 \<le> i \<and> i + 1 < nr \<and> 1 \<le> j \<and> j + 1 < nc \<and>
       sum_list (nbhd3 out_dets i j) = 1 \<and> list_all (\<lambda>v. \<not> isnan v) (nbhd3 in_vid i j) \<longrightarrow>
         cell r i j =
           (if list_all (\<lambda>v. fl_le v (cell in_vid i j)) (nbhd3 in_vid i j) then 1 else 0)"
    "sum_list (nbhd3 out_dets i j) \<noteq> 1 \<longrightarrow> cell r i j = cell out_dets i j"
    "(i = 0 \<or> i + 1 = nr \<or> j = 0 \<or> j + 1 = nc) \<and> cell out_dets i j = 1 \<longrightarrow> cell r i j = 1"
    by blast
  then show ?thesis by blast
qed

theorem dedup_step_sole_candidate_witness:
  "cell dedup_dets 1 2 = 1 \<and> sum_list (nbhd3 dedup_dets 1 2) = 1 \<and>
   (\<exists>r. dedup_step (\<lambda>g i j. NaN) dedup_dets dedup_vid_peak = Inr r \<and> cell r 1 2 = 1) \<and>
   (\<exists>r. dedup_step (\<lambda>g i j. NaN) dedup_dets dedup_vid = Inr r \<and> cell r 1 2 = 0)"
proof -
  have ij: "(1::nat) < 3" "(2::nat) < 5" by simp_all
  have s: "sum_list (nbhd3 dedup_dets 1 2) = 1" unfolding dedup_example_windows by simp
  from dedup_step_sole_candidate [OF dedup_example_shapes(2) dedup_example_shapes(4) ij,
      of "\<lambda>g i j. NaN"]
  have a: "\<exists>r. dedup_step (\<lambda>g i j. NaN) dedup_dets dedup_vid_peak = Inr r \<and> cell r 1 2 = 1"
    unfolding dedup_example_windows dedup_example_cells by simp
  from dedup_step_sole_candidate [OF dedup_example_shapes(1) dedup_example_shapes(3) ij,
      of "\<lambda>g i j. NaN"]
  have b: "\<exists>r. dedup_step (\<lambda>g i j. NaN) dedup_dets dedup_vid = Inr r \<and> cell r 1 2 = 0"
    unfolding dedup_example_windows dedup_example_cells by simp
  from a b s dedup_example_cells(1) show ?thesis by blast
qed

text \<open>
  The window that decides about a candidate is the candidate's own, not every window
  that holds it. In the example scene the window around row 1, column 3 holds exactly
  one candidate, the cell at column 2, and no cell of that window has a greater VIS
  difference than the candidate; yet the candidate is dropped, because its own window
  holds the brighter cell at column 1. That cell, which was not a candidate, is 1
  after the step.
\<close>

theorem dedup_step_counterexample:
  "sum_list (nbhd3 dedup_dets 1 3) = 1 \<and> cell dedup_dets 1 2 = 1 \<and>
   cell dedup_dets 1 2 \<in> set (nbhd3 dedup_dets 1 3) \<and>
   list_all (\<lambda>v. fl_le v (cell dedup_vid 1 2)) (nbhd3 dedup_vid 1 3) \<and>
   cell dedup_dets 1 1 = 0 \<and>
   (\<exists>r. dedup_step (\<lambda>g i j. NaN) dedup_dets dedup_vid = Inr r \<and>
        cell r 1 2 = 0 \<and> cell r 1 1 = 1)"
proof -
  have ij2: "(1::nat) < 3" "(2::nat) < 5" and ij1: "(1::nat) < 3" "(1::nat) < 5" by simp_all
  from dedup_step_window [OF dedup_example_shapes(1) dedup_example_shapes(3) ij2,
      of "\<lambda>g i j. NaN"]
  obtain r where r: "dedup_step (\<lambda>g i j. NaN) dedup_dets dedup_vid = Inr r"
    and a: "cell r 1 2 = 0"
    unfolding dedup_example_windows dedup_example_cells by auto
  from dedup_step_window [OF dedup_example_shapes(1) dedup_example_shapes(3) ij1,
      of "\<lambda>g i j. NaN"]
  obtain r' where r': "dedup_step (\<lambda>g i j. NaN) dedup_dets dedup_vid = Inr r'"
    and b: "cell r' 1 1 = 1"
    unfolding dedup_example_windows dedup_example_cells by auto
  from r r' have "r' = r" by simp
  with r a b show ?thesis
    unfolding dedup_example_windows dedup_example_cells by simp
qed




section \<open>Invalid cells: replaced by the tests, propagated by the arithmetic\<close>

lemma isnan_iff: "isnan x = (x = NaN)"
  by (cases x) simp_all

lemma fl_le_NaN [simp]: "fl_le x NaN = False"
  by (cases x) simp_all

lemma fl_sub_NaN [simp]: "fl_sub x NaN = NaN" "fl_sub NaN x = NaN"
  by (cases x; simp add: fl_sub_def)+

lemma fl_add_NaN [simp]: "fl_add x NaN = NaN"
  by (cases x) simp_all

lemma fl_div_NaN [simp]: "fl_div x NaN = NaN"
  by (cases x) simp_all

lemma comp_stat_px_NaN_bounds [simp]: "comp_stat_px x NaN NaN = NaN"
  by (simp add: comp_stat_px_def fl_gt_def Let_def)

lemma sza_clip_NaN [simp]: "sza_clip NaN = NaN"
  by (simp add: sza_clip_def fl_gt_def)

lemma do_stage5_px_NaN:
  assumes "isnan btd \<or> isnan mea_btd \<or> isnan std_btd \<or> isnan bt_mir \<or> isnan mea_mir \<or>
           isnan std_mir \<or> isnan sza \<or> isnan nwin \<or> isnan ncld \<or> isnan nwat"
  shows "do_stage5_px btd mea_btd std_btd bt_mir mea_mir std_mir sza nwin ncld nwat = NaN"
  using assms unfolding isnan_iff
  by (elim disjE) (simp_all add: do_stage5_px_def Let_def)

lemma thresholds_NaN:
  assumes "inb sza i j" "cell sza i j = NaN"
  shows "cell (fst (set_initial_thresholds_default c sza)) i j = NaN"
    and "cell (snd (set_initial_thresholds_default c sza)) i j = NaN"
  using assms
  by (simp_all add: set_initial_thresholds_default_def set_initial_thresholds_def Let_def)

lemma stage1_px_NaN:
  assumes "1 < stage1_pass_thresh c"
    and "mir = NaN \<or> btd = NaN \<or> mt = NaN \<or> bt = NaN \<or> vid = NaN"
  shows "stage1_px c votes mir btd vid l mt bt lsm lv = 0"
  using assms by (auto simp: stage1_px_def Let_def fl_ge_def)

lemma cell_mir_rad_no_ir:
  assumes "shape mir_rad = shape lw1_bt" "inb mir_rad i j"
  shows "cell (mir_rad_no_ir mir_rad lw1_bt w) i j =
         (let d = fl_sub (cell mir_rad i j) (cell (calc_rad_fromtb lw1_bt w) i j)
          in if isfinite d then d else Fin 0)"
  using assms by (simp add: mir_rad_no_ir_def Let_def calc_rad_fromtb_def inb_shape)

lemma cell_calc_rad_fromtb_NaN:
  "inb t i j \<Longrightarrow> cell t i j = NaN \<Longrightarrow> cell (calc_rad_fromtb t w) i j = NaN"
  by (simp add: calc_rad_fromtb_def Let_def)

lemma stage1_tests_invalid:
  assumes sh: "shape in_btd = shape in_mir" "shape in_vid = shape in_mir"
      "shape in_sza = shape in_mir" "shape in_lsm = shape in_mir"
    and ij: "inb in_mir i j"
    and ks: "set ksizes \<subseteq> {3, 5, 7, 9, 11}"
    and fit: "\<forall>k \<in> set ksizes. k div 2 \<le> length in_btd \<and> k div 2 \<le> ncols in_btd"
    and thr: "1 < stage1_pass_thresh c"
    and nan: "isnan (cell in_mir i j) \<or> isnan (cell in_btd i j) \<or> isnan (cell in_sza i j) \<or>
              isnan (cell in_vid i j)"
  shows "\<exists>pfp. stage1_tests c in_mir in_btd in_vid in_sza in_lsm ksizes kb ka lsm lv = Inr pfp \<and>
               cell pfp i j = 0"
proof -
  from stage1_tests_cell [OF sh ij ks fit, of kb ka c lsm lv] obtain votes pfp where
    res: "stage1_tests c in_mir in_btd in_vid in_sza in_lsm ksizes kb ka lsm lv = Inr pfp"
    and cp: "cell pfp i j =
        stage1_px c (cell votes i j) (cell in_mir i j) (cell in_btd i j) (cell in_vid i j)
          (cell in_lsm i j) (cell (fst (set_initial_thresholds_default c in_sza)) i j)
          (cell (snd (set_initial_thresholds_default c in_sza)) i j) lsm lv"
    by blast
  from sh ij have isz: "inb in_sza i j" by (simp add: inb_shape)
  from nan have "cell in_mir i j = NaN \<or> cell in_btd i j = NaN \<or>
      cell (fst (set_initial_thresholds_default c in_sza)) i j = NaN \<or>
      cell (snd (set_initial_thresholds_default c in_sza)) i j = NaN \<or> cell in_vid i j = NaN"
    using thresholds_NaN [OF isz] by (auto simp: isnan_iff)
  from stage1_px_NaN [OF thr this] cp have "cell pfp i j = 0" by simp
  with res show ?thesis by blast
qed

lemma calc_frp_invalid:
  assumes "rad_to_bt_dict c (platform_name d) = Some a_val"
    and "shape (pix_area d) = shape (MIR__BT d)"
    and "shape (MIR__BT d) = shape (mean_mir d)"
    and "shape (mean_mir d) = shape (fire_dets d)"
    and "inb (pix_area d) i j"
  shows "\<exists>d'. calc_frp c d = Inr d' \<and>
           (isnan (cell (mean_mir d) i j) \<or> isnan (cell (fire_dets d) i j)
              \<longrightarrow> cell (frp_est d') i j = Fin 0) \<and>
           ((isnan (cell (pix_area d) i j) \<or> isnan (cell (MIR__BT d) i j)) \<and>
            fl_gt (cell (fire_dets d) i j) (Fin 0) \<and> fl_gt (cell (mean_mir d) i j) (Fin 0)
              \<longrightarrow> cell (frp_est d') i j = NaN) \<and>
           ((isnan (cell (pix_area d) i j) \<or> isnan (cell (MIR__BT d) i j)) \<and>
            \<not> (fl_gt (cell (fire_dets d) i j) (Fin 0) \<and> fl_gt (cell (mean_mir d) i j) (Fin 0))
              \<longrightarrow> cell (frp_est d') i j = Fin 0)"
proof -
  from calc_frp_cell [OF assms(1-5)] obtain d' where
    d': "calc_frp c d = Inr d'" and
    v: "cell (frp_est d') i j =
             (if fl_gt (cell (fire_dets d) i j) (Fin 0) \<and> fl_gt (cell (mean_mir d) i j) (Fin 0)
              then fl_mul (fl_div (fl_mul (cell (pix_area d) i j) (Fin (sigma c))) (Fin a_val))
                          (fl_sub (cell (MIR__BT d) i j) (cell (mean_mir d) i j))
              else Fin 0)" by blast
  have a: "cell (frp_est d') i j = Fin 0"
    if "isnan (cell (mean_mir d) i j) \<or> isnan (cell (fire_dets d) i j)"
  proof -
    from that have "\<not> (fl_gt (cell (fire_dets d) i j) (Fin 0) \<and>
                        fl_gt (cell (mean_mir d) i j) (Fin 0))"
      by (auto simp: isnan_iff fl_gt_def)
    with v show ?thesis by simp
  qed
  have b: "cell (frp_est d') i j = NaN"
    if "isnan (cell (pix_area d) i j) \<or> isnan (cell (MIR__BT d) i j)"
      "fl_gt (cell (fire_dets d) i j) (Fin 0)" "fl_gt (cell (mean_mir d) i j) (Fin 0)"
    using that v by (auto simp: isnan_iff)
  have e: "cell (frp_est d') i j = Fin 0"
    if "\<not> (fl_gt (cell (fire_dets d) i j) (Fin 0) \<and> fl_gt (cell (mean_mir d) i j) (Fin 0))"
    unfolding v using that by (rule if_not_P)
  from d' a b e show ?thesis by blast
qed

lemma mir_rad_no_ir_invalid:
  assumes "shape mir_rad = shape lw1_bt" "inb mir_rad i j"
    and "isnan (cell mir_rad i j) \<or> isnan (cell lw1_bt i j)"
  shows "cell (mir_rad_no_ir mir_rad lw1_bt w) i j = Fin 0"
proof -
  from assms(1,2) have il: "inb lw1_bt i j" by (simp add: inb_shape)
  from assms(3) have "fl_sub (cell mir_rad i j) (cell (calc_rad_fromtb lw1_bt w) i j) = NaN"
    using cell_calc_rad_fromtb_NaN [OF il] by (auto simp: isnan_iff)
  then show ?thesis
    using cell_mir_rad_no_ir [OF assms(1,2)] by (simp add: Let_def)
qed

lemma do_stage5_invalid:
  assumes "shape mea_btd = shape btd" "shape std_btd = shape btd" "shape bt_mir = shape btd"
      "shape mea_mir = shape btd" "shape std_mir = shape btd" "shape sza = shape btd"
      "shape nwin = shape btd" "shape ncld = shape btd" "shape nwat = shape btd"
    and "inb btd i j"
    and "isnan (cell btd i j) \<or> isnan (cell mea_btd i j) \<or> isnan (cell std_btd i j) \<or>
         isnan (cell bt_mir i j) \<or> isnan (cell mea_mir i j) \<or> isnan (cell std_mir i j) \<or>
         isnan (cell sza i j) \<or> isnan (cell nwin i j) \<or> isnan (cell ncld i j) \<or>
         isnan (cell nwat i j)"
  shows "cell (do_stage5 btd mea_btd std_btd bt_mir mea_mir std_mir sza nwin ncld nwat) i j = NaN"
  unfolding cell_do_stage5 [OF assms(1-10)] using assms(11) by (rule do_stage5_px_NaN)

text \<open>
  Claim C9, as the code has it. The arithmetic propagates an invalid cell and the tests
  built with \<open>where\<close> replace it by 0. At a cell where one of the four grids \<open>in_mir\<close>,
  \<open>in_btd\<close>, \<open>in_sza\<close>, \<open>in_vid\<close> is NaN, the candidate mask of \<open>stage1_tests\<close> is 0 (for
  grids of one shape, supported kernel sizes that fit the scene and a pass threshold
  above 1). With a sensor constant for the platform and grids of one shape: at a cell
  where the background mean or the fire mask is NaN, the FRP estimate of \<open>calc_frp\<close> is
  0; at a cell where the pixel area or the MIR brightness temperature is NaN, it is
  NaN when both gates are open and 0 otherwise. At a cell
  where the MIR radiance or the LW1 brightness temperature is NaN, \<open>MIR_RAD_NO_IR\<close> is
  0. At a cell where one of the ten inputs of \<open>do_stage5\<close> is NaN, the confidence is
  NaN.
\<close>

theorem invalid_cells_gated:
  "(shape in_btd = shape in_mir \<and> shape in_vid = shape in_mir \<and> shape in_sza = shape in_mir \<and>
    shape in_lsm = shape in_mir \<and> inb in_mir i j \<and> set ksizes \<subseteq> {3, 5, 7, 9, 11} \<and>
    (\<forall>k \<in> set ksizes. k div 2 \<le> length in_btd \<and> k div 2 \<le> ncols in_btd) \<and>
    1 < stage1_pass_thresh c \<and>
    (isnan (cell in_mir i j) \<or> isnan (cell in_btd i j) \<or> isnan (cell in_sza i j) \<or>
     isnan (cell in_vid i j))
    \<longrightarrow> (\<exists>pfp. stage1_tests c in_mir in_btd in_vid in_sza in_lsm ksizes kb ka lsm lv = Inr pfp \<and>
               cell pfp i j = 0)) \<and>
   (rad_to_bt_dict c (platform_name d) = Some a_val \<and> shape (pix_area d) = shape (MIR__BT d) \<and>
    shape (MIR__BT d) = shape (mean_mir d) \<and> shape (mean_mir d) = shape (fire_dets d) \<and>
    inb (pix_area d) i j
    \<longrightarrow> (\<exists>d'. calc_frp c d = Inr d' \<and>
           (isnan (cell (mean_mir d) i j) \<or> isnan (cell (fire_dets d) i j)
              \<longrightarrow> cell (frp_est d') i j = Fin 0) \<and>
           (isnan (cell (pix_area d) i j) \<or> isnan (cell (MIR__BT d) i j)
              \<longrightarrow> cell (frp_est d') i j =
                    (if fl_gt (cell (fire_dets d) i j) (Fin 0) \<and>
                        fl_gt (cell (mean_mir d) i j) (Fin 0)
                     then NaN else Fin 0)))) \<and>
   (shape mir_rad = shape lw1_bt \<and> inb mir_rad i j \<and>
    (isnan (cell mir_rad i j) \<or> isnan (cell lw1_bt i j))
    \<longrightarrow> cell (mir_rad_no_ir mir_rad lw1_bt w) i j = Fin 0) \<and>
   (shape mea_btd = shape btd \<and> shape std_btd = shape btd \<and> shape bt_mir = shape btd \<and>
    shape mea_mir = shape btd \<and> shape std_mir = shape btd \<and> shape sza = shape btd \<and>
    shape nwin = shape btd \<and> shape ncld = shape btd \<and> shape nwat = shape btd \<and> inb btd i j \<and>
    (isnan (cell btd i j) \<or> isnan (cell mea_btd i j) \<or> isnan (cell std_btd i j) \<or>
     isnan (cell bt_mir i j) \<or> isnan (cell mea_mir i j) \<or> isnan (cell std_mir i j) \<or>
     isnan (cell sza i j) \<or> isnan (cell nwin i j) \<or> isnan (cell ncld i j) \<or>
     isnan (cell nwat i j))
    \<longrightarrow> cell (do_stage5 btd mea_btd std_btd bt_mir mea_mir std_mir sza nwin ncld nwat) i j = NaN)"
proof (intro conjI impI)
  assume "shape in_btd = shape in_mir \<and> shape in_vid = shape in_mir \<and> shape in_sza = shape in_mir \<and>
    shape in_lsm = shape in_mir \<and> inb in_mir i j \<and> set ksizes \<subseteq> {3, 5, 7, 9, 11} \<and>
    (\<forall>k \<in> set ksizes. k div 2 \<le> length in_btd \<and> k div 2 \<le> ncols in_btd) \<and>
    1 < stage1_pass_thresh c \<and>
    (isnan (cell in_mir i j) \<or> isnan (cell in_btd i j) \<or> isnan (cell in_sza i j) \<or>
     isnan (cell in_vid i j))"
  then show "\<exists>pfp. stage1_tests c in_mir in_btd in_vid in_sza in_lsm ksizes kb ka lsm lv = Inr pfp \<and>
               cell pfp i j = 0"
    by (intro stage1_tests_invalid) simp_all
next
  assume h: "rad_to_bt_dict c (platform_name d) = Some a_val \<and>
    shape (pix_area d) = shape (MIR__BT d) \<and>
    shape (MIR__BT d) = shape (mean_mir d) \<and> shape (mean_mir d) = shape (fire_dets d) \<and>
    inb (pix_area d) i j"
  then have "\<exists>d'. calc_frp c d = Inr d' \<and>
           (isnan (cell (mean_mir d) i j) \<or> isnan (cell (fire_dets d) i j)
              \<longrightarrow> cell (frp_est d') i j = Fin 0) \<and>
           ((isnan (cell (pix_area d) i j) \<or> isnan (cell (MIR__BT d) i j)) \<and>
            fl_gt (cell (fire_dets d) i j) (Fin 0) \<and> fl_gt (cell (mean_mir d) i j) (Fin 0)
              \<longrightarrow> cell (frp_est d') i j = NaN) \<and>
           ((isnan (cell (pix_area d) i j) \<or> isnan (cell (MIR__BT d) i j)) \<and>
            \<not> (fl_gt (cell (fire_dets d) i j) (Fin 0) \<and> fl_gt (cell (mean_mir d) i j) (Fin 0))
              \<longrightarrow> cell (frp_est d') i j = Fin 0)"
    by (intro calc_frp_invalid [of c d a_val]) simp_all
  then obtain d' where d: "calc_frp c d = Inr d'"
    and a: "isnan (cell (mean_mir d) i j) \<or> isnan (cell (fire_dets d) i j)
              \<longrightarrow> cell (frp_est d') i j = Fin 0"
    and b: "(isnan (cell (pix_area d) i j) \<or> isnan (cell (MIR__BT d) i j)) \<and>
            fl_gt (cell (fire_dets d) i j) (Fin 0) \<and> fl_gt (cell (mean_mir d) i j) (Fin 0)
              \<longrightarrow> cell (frp_est d') i j = NaN"
    and e: "(isnan (cell (pix_area d) i j) \<or> isnan (cell (MIR__BT d) i j)) \<and>
            \<not> (fl_gt (cell (fire_dets d) i j) (Fin 0) \<and> fl_gt (cell (mean_mir d) i j) (Fin 0))
              \<longrightarrow> cell (frp_est d') i j = Fin 0"
    by blast
  from b e have "isnan (cell (pix_area d) i j) \<or> isnan (cell (MIR__BT d) i j)
              \<longrightarrow> cell (frp_est d') i j =
                    (if fl_gt (cell (fire_dets d) i j) (Fin 0) \<and>
                        fl_gt (cell (mean_mir d) i j) (Fin 0)
                     then NaN else Fin 0)"
    by (cases "fl_gt (cell (fire_dets d) i j) (Fin 0) \<and> fl_gt (cell (mean_mir d) i j) (Fin 0)")
       auto
  with d a show "\<exists>d'. calc_frp c d = Inr d' \<and>
           (isnan (cell (mean_mir d) i j) \<or> isnan (cell (fire_dets d) i j)
              \<longrightarrow> cell (frp_est d') i j = Fin 0) \<and>
           (isnan (cell (pix_area d) i j) \<or> isnan (cell (MIR__BT d) i j)
              \<longrightarrow> cell (frp_est d') i j =
                    (if fl_gt (cell (fire_dets d) i j) (Fin 0) \<and>
                        fl_gt (cell (mean_mir d) i j) (Fin 0)
                     then NaN else Fin 0))"
    by blast
next
  assume "shape mir_rad = shape lw1_bt \<and> inb mir_rad i j \<and>
    (isnan (cell mir_rad i j) \<or> isnan (cell lw1_bt i j))"
  then show "cell (mir_rad_no_ir mir_rad lw1_bt w) i j = Fin 0"
    by (intro mir_rad_no_ir_invalid) simp_all
next
  assume "shape mea_btd = shape btd \<and> shape std_btd = shape btd \<and> shape bt_mir = shape btd \<and>
    shape mea_mir = shape btd \<and> shape std_mir = shape btd \<and> shape sza = shape btd \<and>
    shape nwin = shape btd \<and> shape ncld = shape btd \<and> shape nwat = shape btd \<and> inb btd i j \<and>
    (isnan (cell btd i j) \<or> isnan (cell mea_btd i j) \<or> isnan (cell std_btd i j) \<or>
     isnan (cell bt_mir i j) \<or> isnan (cell mea_mir i j) \<or> isnan (cell std_mir i j) \<or>
     isnan (cell sza i j) \<or> isnan (cell nwin i j) \<or> isnan (cell ncld i j) \<or>
     isnan (cell nwat i j))"
  then show "cell (do_stage5 btd mea_btd std_btd bt_mir mea_mir std_mir sza nwin ncld nwat) i j = NaN"
    by (intro do_stage5_invalid) simp_all
qed

lemma stage1_nan_example_facts:
  "shape (uniform4 v) = shape stage1_nan_example" "inb stage1_nan_example 0 0"
  "isnan (cell stage1_nan_example 0 0)"
  by (simp_all add: shape_def inb_def cell_def uniform4_def stage1_nan_example_def)

lemma frp_nan_example_facts:
  "rad_to_bt_dict consts_example (platform_name frp_nan_example) = Some (3 / 10 ^ 9)"
  "shape (pix_area frp_nan_example) = shape (MIR__BT frp_nan_example)"
  "shape (MIR__BT frp_nan_example) = shape (mean_mir frp_nan_example)"
  "shape (mean_mir frp_nan_example) = shape (fire_dets frp_nan_example)"
  "inb (pix_area frp_nan_example) 0 0"
  "isnan (cell (mean_mir frp_nan_example) 0 0)"
  by (simp_all add: shape_def inb_def cell_def consts_example_def frp_nan_example_def)

lemma frp_nan_area_example_facts:
  "rad_to_bt_dict consts_example (platform_name frp_nan_area_example) = Some (3 / 10 ^ 9)"
  "shape (pix_area frp_nan_area_example) = shape (MIR__BT frp_nan_area_example)"
  "shape (MIR__BT frp_nan_area_example) = shape (mean_mir frp_nan_area_example)"
  "shape (mean_mir frp_nan_area_example) = shape (fire_dets frp_nan_area_example)"
  "inb (pix_area frp_nan_area_example) 0 0"
  "isnan (cell (pix_area frp_nan_area_example) 0 0)"
  "fl_gt (cell (fire_dets frp_nan_area_example) 0 0) (Fin 0)"
  "fl_gt (cell (mean_mir frp_nan_area_example) 0 0) (Fin 0)"
  by (simp_all add: shape_def inb_def cell_def consts_example_def frp_nan_area_example_def
        fl_gt_def)

theorem invalid_cells_gated_witness:
  "(\<exists>pfp. stage1_tests consts_example stage1_nan_example (uniform4 (Fin 5)) (uniform4 (Fin 1))
            (uniform4 (Fin 10)) (uniform4 (Fin 2)) [3, 5, 7] 1.5 (- 0.012) True 2 = Inr pfp \<and>
          cell pfp 0 0 = 0) \<and>
   (\<exists>d'. calc_frp consts_example frp_nan_example = Inr d' \<and> cell (frp_est d') 0 0 = Fin 0) \<and>
   (\<exists>d'. calc_frp consts_example frp_nan_area_example = Inr d' \<and> cell (frp_est d') 0 0 = NaN) \<and>
   cell (mir_rad_no_ir [[NaN]] [[Fin 300]] 3.9) 0 0 = Fin 0 \<and>
   cell (do_stage5 [[Fin 10]] [[Fin 1]] [[Fin 1]] [[Fin 340]] [[Fin 300]] [[Fin 1]] [[NaN]] [[Fin 10]]
            [[Fin 0]] [[Fin 0]]) 0 0 = NaN"
proof -
  note t = invalid_cells_gated [where i = 0 and j = 0 and c = consts_example
      and in_mir = stage1_nan_example and in_btd = "uniform4 (Fin 5)"
      and in_vid = "uniform4 (Fin 1)" and in_sza = "uniform4 (Fin 10)"
      and in_lsm = "uniform4 (Fin 2)" and ksizes = "[3, 5, 7]"
      and kb = "1.5" and ka = "- 0.012" and lsm = True and lv = 2
      and a_val = "3 / 10 ^ 9"
      and mir_rad = "[[NaN]]" and ?lw1_bt = "[[Fin 300]]" and w = "3.9"
      and btd = "[[Fin 10]]" and mea_btd = "[[Fin 1]]" and std_btd = "[[Fin 1]]"
      and bt_mir = "[[Fin 340]]" and mea_mir = "[[Fin 300]]" and std_mir = "[[Fin 1]]"
      and sza = "[[NaN]]" and nwin = "[[Fin 10]]" and ncld = "[[Fin 0]]" and nwat = "[[Fin 0]]"]
  note t1 = t [where d = frp_nan_example]
  note t2 = t [where d = frp_nan_area_example]
  have h1: "shape (uniform4 (Fin 5)) = shape stage1_nan_example \<and>
      shape (uniform4 (Fin 1)) = shape stage1_nan_example \<and>
      shape (uniform4 (Fin 10)) = shape stage1_nan_example \<and>
      shape (uniform4 (Fin 2)) = shape stage1_nan_example \<and> inb stage1_nan_example 0 0 \<and>
      set [3, 5, 7] \<subseteq> {3, 5, 7, 9, 11::nat} \<and>
      (\<forall>k \<in> set [3, 5, 7::nat]. k div 2 \<le> length (uniform4 (Fin 5)) \<and>
                                  k div 2 \<le> ncols (uniform4 (Fin 5))) \<and>
      1 < stage1_pass_thresh consts_example \<and>
      (isnan (cell stage1_nan_example 0 0) \<or> isnan (cell (uniform4 (Fin 5)) 0 0) \<or>
       isnan (cell (uniform4 (Fin 10)) 0 0) \<or> isnan (cell (uniform4 (Fin 1)) 0 0))"
    by (simp add: shape_def inb_def cell_def uniform4_def stage1_nan_example_def ncols_def
          consts_example_def)
  have h2: "rad_to_bt_dict consts_example (platform_name frp_nan_example) = Some (3 / 10 ^ 9) \<and>
      shape (pix_area frp_nan_example) = shape (MIR__BT frp_nan_example) \<and>
      shape (MIR__BT frp_nan_example) = shape (mean_mir frp_nan_example) \<and>
      shape (mean_mir frp_nan_example) = shape (fire_dets frp_nan_example) \<and>
      inb (pix_area frp_nan_example) 0 0"
    using frp_nan_example_facts by simp
  have h2': "rad_to_bt_dict consts_example (platform_name frp_nan_area_example)
        = Some (3 / 10 ^ 9) \<and>
      shape (pix_area frp_nan_area_example) = shape (MIR__BT frp_nan_area_example) \<and>
      shape (MIR__BT frp_nan_area_example) = shape (mean_mir frp_nan_area_example) \<and>
      shape (mean_mir frp_nan_area_example) = shape (fire_dets frp_nan_area_example) \<and>
      inb (pix_area frp_nan_area_example) 0 0"
    using frp_nan_area_example_facts by simp
  have h3: "shape [[NaN]] = shape [[Fin 300]] \<and> inb [[NaN]] 0 0 \<and>
      (isnan (cell [[NaN]] 0 0) \<or> isnan (cell [[Fin 300]] 0 0))"
    by (simp add: shape_def inb_def cell_def)
  have h4: "shape [[Fin 1]] = shape [[Fin 10]] \<and> shape [[Fin 1]] = shape [[Fin 10]] \<and>
      shape [[Fin 340]] = shape [[Fin 10]] \<and> shape [[Fin 300]] = shape [[Fin 10]] \<and>
      shape [[Fin 1]] = shape [[Fin 10]] \<and> shape [[NaN]] = shape [[Fin 10]] \<and>
      shape [[Fin 10]] = shape [[Fin 10]] \<and> shape [[Fin 0]] = shape [[Fin 10]] \<and>
      shape [[Fin 0]] = shape [[Fin 10]] \<and> inb [[Fin 10]] 0 0 \<and>
      (isnan (cell [[Fin 10]] 0 0) \<or> isnan (cell [[Fin 1]] 0 0) \<or> isnan (cell [[Fin 1]] 0 0) \<or>
       isnan (cell [[Fin 340]] 0 0) \<or> isnan (cell [[Fin 300]] 0 0) \<or> isnan (cell [[Fin 1]] 0 0) \<or>
       isnan (cell [[NaN]] 0 0) \<or> isnan (cell [[Fin 10]] 0 0) \<or> isnan (cell [[Fin 0]] 0 0) \<or>
       isnan (cell [[Fin 0]] 0 0))"
    by (simp add: shape_def inb_def cell_def)
  from t1 h1 have c1: "\<exists>pfp. stage1_tests consts_example stage1_nan_example (uniform4 (Fin 5))
        (uniform4 (Fin 1)) (uniform4 (Fin 10)) (uniform4 (Fin 2)) [3, 5, 7] 1.5 (- 0.012) True 2
        = Inr pfp \<and> cell pfp 0 0 = 0"
    by blast
  from t1 h2 frp_nan_example_facts(6)
  have c2: "\<exists>d'. calc_frp consts_example frp_nan_example = Inr d' \<and>
      cell (frp_est d') 0 0 = Fin 0"
    by blast
  from t2 h2' frp_nan_area_example_facts(6-8)
  have c2': "\<exists>d'. calc_frp consts_example frp_nan_area_example = Inr d' \<and>
      cell (frp_est d') 0 0 = NaN"
    by (metis (full_types))
  from t1 h3 have c3: "cell (mir_rad_no_ir [[NaN]] [[Fin 300]] 3.9) 0 0 = Fin 0"
    by blast
  from t1 h4 have c4: "cell (do_stage5 [[Fin 10]] [[Fin 1]] [[Fin 1]] [[Fin 340]] [[Fin 300]]
            [[Fin 1]] [[NaN]] [[Fin 10]] [[Fin 0]] [[Fin 0]]) 0 0 = NaN"
    by blast
  from c1 c2 c2' c3 c4 show ?thesis by blast
qed

text \<open>
  The counterexample to the claim as stated: the MIR brightness temperature of the first
  cell is NaN and the candidate mask is 0 there; the background mean is NaN and the
  FRP estimate is 0, which is not NaN.
\<close>

theorem invalid_cells_counterexample:
  "isnan (cell stage1_nan_example 0 0) \<and>
   (\<exists>pfp. stage1_tests consts_example stage1_nan_example (uniform4 (Fin 5)) (uniform4 (Fin 1))
            (uniform4 (Fin 10)) (uniform4 (Fin 2)) [3, 5, 7] 1.5 (- 0.012) True 2 = Inr pfp \<and>
          cell pfp 0 0 = 0) \<and>
   isnan (cell (mean_mir frp_nan_example) 0 0) \<and>
   (\<exists>d'. calc_frp consts_example frp_nan_example = Inr d' \<and> cell (frp_est d') 0 0 = Fin 0 \<and>
         \<not> isnan (cell (frp_est d') 0 0))"
proof -
  have a: "\<exists>pfp. stage1_tests consts_example stage1_nan_example (uniform4 (Fin 5))
        (uniform4 (Fin 1)) (uniform4 (Fin 10)) (uniform4 (Fin 2)) [3, 5, 7] 1.5 (- 0.012) True 2
        = Inr pfp \<and> cell pfp 0 0 = 0"
    using stage1_nan_example_facts(3)
    by (intro stage1_tests_invalid stage1_nan_example_facts stage1_example_shapes(3-5)) simp
  from calc_frp_invalid [OF frp_nan_example_facts(1-5)] frp_nan_example_facts(6)
  have "\<exists>d'. calc_frp consts_example frp_nan_example = Inr d' \<and> cell (frp_est d') 0 0 = Fin 0"
    by blast
  then have b: "\<exists>d'. calc_frp consts_example frp_nan_example = Inr d' \<and>
       cell (frp_est d') 0 0 = Fin 0 \<and> \<not> isnan (cell (frp_est d') 0 0)"
    by auto
  from a b stage1_nan_example_facts(3) frp_nan_example_facts(6) show ?thesis by blast
qed

end
